theory Spec2Isabelle
  imports Main
begin

section \<open>The OpenContrail load-balancer driver\<close>

text \<open>
  A shallow embedding of \<^verbatim>\<open>plugins/opencontrail/loadbalancer/driver.py\<close>, the class
  \<^verbatim>\<open>OpencontrailLoadbalancerDriver\<close>. Every method becomes a function that takes the
  state (the remote object store, the trace of API calls, the error log and the
  cached template) and returns a result together with the new state. A Python
  exception is the left injection of the result.
\<close>

subsection \<open>Exceptions\<close>

text \<open>
  \<^verbatim>\<open>NoIdError\<close> and \<^verbatim>\<open>RefsExistError\<close> come from the API client,
  \<^verbatim>\<open>BadRequest\<close> (resource, msg) from Neutron; the others are raised by the Python
  interpreter itself.
\<close>

datatype exn =
    NoIdError
  | RefsExistError
  | BadRequest string string
  | NameError string
  | AttributeError string
  | IndexError

subsection \<open>Objects of the remote API\<close>

text \<open>A reference is the dictionary \<^verbatim>\<open>{'to': fq_name, 'uuid': uuid}\<close>.\<close>

record obj_ref =
  ref_to :: "string list"
  ref_uuid :: string

text \<open>\<^verbatim>\<open>ServiceInstanceType\<close>: a freshly constructed one has every field \<^verbatim>\<open>None\<close>.\<close>

record service_instance_type =
  right_virtual_network :: "string option"
  right_ip_address :: "string option"
  left_virtual_network :: "string option"

definition ServiceInstanceType :: service_instance_type where
  "ServiceInstanceType =
     \<lparr>right_virtual_network = None, right_ip_address = None, left_virtual_network = None\<rparr>"

record service_template =
  tmpl_fq_name :: "string list"
  tmpl_uuid :: string

text \<open>
  A service instance. An object built locally has no uuid until it is created remotely.
  \<^verbatim>\<open>si_pool_back_refs\<close> holds the uuids of the pools that refer to the instance.
\<close>

record service_instance =
  si_fq_name :: "string list"
  si_uuid :: "string option"
  si_parent_type :: string
  service_instance_properties :: "service_instance_type option"
  service_template_refs :: "obj_ref list option"
  si_pool_back_refs :: "string list"

record loadbalancer_pool_type =
  subnet_id :: string

record loadbalancer_pool =
  pool_fq_name :: "string list"
  pool_uuid :: string
  loadbalancer_pool_properties :: "loadbalancer_pool_type option"
  service_instance_refs :: "obj_ref list option"

record virtual_ip =
  vip_fq_name :: "string list"
  virtual_machine_interface_refs :: "obj_ref list option"

record virtual_machine_interface =
  virtual_network_refs :: "obj_ref list option"
  instance_ip_back_refs :: "obj_ref list option"

record instance_ip =
  instance_ip_address :: "string option"

record virtual_network =
  vn_fq_name :: "string list"

record project =
  project_fq_name :: "string list"

subsection \<open>The remote store and the driver state\<close>

text \<open>
  The object-API client (\<^verbatim>\<open>vnc_api\<close>) is an external library, taken here by the contract
  that section 6 of the specification gives: resources are read by id or by qualified
  name, a read of an absent resource fails with "not found", a delete of a resource that
  is still referred to fails with "references exist". The store below keeps one finite
  map per resource kind. \<^verbatim>\<open>subnet_network\<close> is the table behind
  \<^verbatim>\<open>utils.get_subnet_network_id\<close>.
\<close>

record store =
  projects :: "string \<rightharpoonup> project"
  virtual_networks :: "string \<rightharpoonup> virtual_network"
  virtual_machine_interfaces :: "string \<rightharpoonup> virtual_machine_interface"
  instance_ips :: "string \<rightharpoonup> instance_ip"
  loadbalancer_pools :: "string \<rightharpoonup> loadbalancer_pool"
  virtual_ips :: "string \<rightharpoonup> virtual_ip"
  service_templates :: "string list \<rightharpoonup> service_template"
  service_instances :: "string list \<rightharpoonup> service_instance"
  subnet_network :: "string \<rightharpoonup> string"
  uuid_counter :: nat

text \<open>Every call made on the API client, in the order it was made.\<close>

datatype api_call =
    ProjectRead string
  | VirtualNetworkRead string
  | VirtualMachineInterfaceRead string
  | InstanceIpRead string
  | LoadbalancerPoolRead string
  | VirtualIpRead string
  | ServiceTemplateRead "string list"
  | ServiceInstanceRead "string list"
  | SubnetNetworkLookup string
  | ServiceInstanceCreate service_instance
  | ServiceInstanceUpdate service_instance
  | ServiceInstanceDelete "string list"
  | LoadbalancerPoolUpdate loadbalancer_pool

fun is_write :: "api_call \<Rightarrow> bool" where
  "is_write (ServiceInstanceCreate _) = True"
| "is_write (ServiceInstanceUpdate _) = True"
| "is_write (ServiceInstanceDelete _) = True"
| "is_write (LoadbalancerPoolUpdate _) = True"
| "is_write _ = False"

fun is_si_create_or_update :: "api_call \<Rightarrow> bool" where
  "is_si_create_or_update (ServiceInstanceCreate _) = True"
| "is_si_create_or_update (ServiceInstanceUpdate _) = True"
| "is_si_create_or_update _ = False"

fun is_si_update :: "api_call \<Rightarrow> bool" where
  "is_si_update (ServiceInstanceUpdate _) = True"
| "is_si_update _ = False"

fun is_si_delete :: "api_call \<Rightarrow> bool" where
  "is_si_delete (ServiceInstanceDelete _) = True"
| "is_si_delete _ = False"

fun is_pool_update :: "api_call \<Rightarrow> bool" where
  "is_pool_update (LoadbalancerPoolUpdate _) = True"
| "is_pool_update _ = False"

fun is_template_read :: "api_call \<Rightarrow> bool" where
  "is_template_read (ServiceTemplateRead _) = True"
| "is_template_read _ = False"

text \<open>
  The state a driver method runs in: the remote store, the calls made so far, what
  \<^verbatim>\<open>LOG.error\<close> received, and the attribute \<^verbatim>\<open>self._lb_template\<close>.
\<close>

record state =
  remote :: store
  calls :: "api_call list"
  logged :: "exn list"
  lb_template :: "service_template option"

type_synonym 'a result = "(exn + 'a) \<times> state"

definition record_call :: "api_call \<Rightarrow> state \<Rightarrow> state" where
  "record_call c s = s\<lparr>calls := calls s @ [c]\<rparr>"

definition LOG_error :: "exn \<Rightarrow> state \<Rightarrow> state" where
  "LOG_error ex s = s\<lparr>logged := logged s @ [ex]\<rparr>"

subsection \<open>The API client\<close>

definition api_read :: "(store \<Rightarrow> 'k \<rightharpoonup> 'v) \<Rightarrow> ('k \<Rightarrow> api_call) \<Rightarrow> 'k \<Rightarrow> state \<Rightarrow> 'v result" where
  "api_read table call k s =
     (case table (remote s) k of
        None \<Rightarrow> (Inl NoIdError, record_call (call k) s)
      | Some v \<Rightarrow> (Inr v, record_call (call k) s))"

definition project_read :: "string \<Rightarrow> state \<Rightarrow> project result" where
  "project_read = api_read projects ProjectRead"

definition virtual_network_read :: "string \<Rightarrow> state \<Rightarrow> virtual_network result" where
  "virtual_network_read = api_read virtual_networks VirtualNetworkRead"

definition virtual_machine_interface_read ::
    "string \<Rightarrow> state \<Rightarrow> virtual_machine_interface result" where
  "virtual_machine_interface_read = api_read virtual_machine_interfaces VirtualMachineInterfaceRead"

definition instance_ip_read :: "string \<Rightarrow> state \<Rightarrow> instance_ip result" where
  "instance_ip_read = api_read instance_ips InstanceIpRead"

definition loadbalancer_pool_read :: "string \<Rightarrow> state \<Rightarrow> loadbalancer_pool result" where
  "loadbalancer_pool_read = api_read loadbalancer_pools LoadbalancerPoolRead"

definition virtual_ip_read :: "string \<Rightarrow> state \<Rightarrow> virtual_ip result" where
  "virtual_ip_read = api_read virtual_ips VirtualIpRead"

definition service_template_read :: "string list \<Rightarrow> state \<Rightarrow> service_template result" where
  "service_template_read = api_read service_templates ServiceTemplateRead"

definition service_instance_read :: "string list \<Rightarrow> state \<Rightarrow> service_instance result" where
  "service_instance_read = api_read service_instances ServiceInstanceRead"

text \<open>
  Modelled from the spec: \<^verbatim>\<open>utils.get_subnet_network_id\<close> is a module of this repository
  that is not among the sources. The specification calls its result "the pool's configured
  backend subnet's owning network id" and says that a lookup failure in the property
  calculation other than the unresolvable network is propagated to the caller.
\<close>

definition get_subnet_network_id :: "string \<Rightarrow> state \<Rightarrow> string result" where
  "get_subnet_network_id = api_read subnet_network SubnetNetworkLookup"

text \<open>The store hands out the uuids of the objects it creates from a counter.\<close>

definition new_uuid :: "nat \<Rightarrow> string" where
  "new_uuid n = ''si-uuid-'' @ replicate n (CHR ''i'')"

text \<open>
  A write is a partial function on the store, run by \<open>api_write\<close>, which records the call.
  Creating under a qualified name that is taken fails with "references exist"; otherwise
  the store assigns a uuid, which the client also writes into the caller's object.
\<close>

definition api_write :: "api_call \<Rightarrow> (store \<Rightarrow> exn + 'a \<times> store) \<Rightarrow> state \<Rightarrow> 'a result" where
  "api_write c f s =
     (case f (remote s) of
        Inl ex \<Rightarrow> (Inl ex, record_call c s)
      | Inr (v, st) \<Rightarrow> (Inr v, (record_call c s)\<lparr>remote := st\<rparr>))"

definition store_create_instance :: "service_instance \<Rightarrow> store \<Rightarrow> exn + service_instance \<times> store" where
  "store_create_instance si_obj st =
     (case service_instances st (si_fq_name si_obj) of
        Some _ \<Rightarrow> Inl RefsExistError
      | None \<Rightarrow>
          (let created = si_obj\<lparr>si_uuid := Some (new_uuid (uuid_counter st))\<rparr> in
           Inr (created,
                st\<lparr>service_instances := (service_instances st)(si_fq_name si_obj \<mapsto> created),
                   uuid_counter := Suc (uuid_counter st)\<rparr>)))"

definition service_instance_create :: "service_instance \<Rightarrow> state \<Rightarrow> service_instance result" where
  "service_instance_create si_obj =
     api_write (ServiceInstanceCreate si_obj) (store_create_instance si_obj)"

text \<open>
  An update sends the fields the caller changed; the driver only ever changes the
  properties record of a service instance.
\<close>

definition store_update_instance :: "service_instance \<Rightarrow> store \<Rightarrow> exn + unit \<times> store" where
  "store_update_instance si_obj st =
     (case service_instances st (si_fq_name si_obj) of
        None \<Rightarrow> Inl NoIdError
      | Some stored \<Rightarrow>
          Inr ((), st\<lparr>service_instances := (service_instances st)(si_fq_name si_obj \<mapsto>
                        stored\<lparr>service_instance_properties := service_instance_properties si_obj\<rparr>)\<rparr>))"

definition service_instance_update :: "service_instance \<Rightarrow> state \<Rightarrow> unit result" where
  "service_instance_update si_obj =
     api_write (ServiceInstanceUpdate si_obj) (store_update_instance si_obj)"

definition store_delete_instance :: "string list \<Rightarrow> store \<Rightarrow> exn + unit \<times> store" where
  "store_delete_instance fq_name st =
     (case service_instances st fq_name of
        None \<Rightarrow> Inl NoIdError
      | Some stored \<Rightarrow>
          if si_pool_back_refs stored \<noteq> [] then Inl RefsExistError
          else Inr ((), st\<lparr>service_instances := (service_instances st)(fq_name := None)\<rparr>))"

definition service_instance_delete :: "string list \<Rightarrow> state \<Rightarrow> unit result" where
  "service_instance_delete fq_name =
     api_write (ServiceInstanceDelete fq_name) (store_delete_instance fq_name)"

text \<open>Back references follow the references of the pools.\<close>

definition unlink_pool :: "string \<Rightarrow> obj_ref \<Rightarrow> store \<Rightarrow> store" where
  "unlink_pool u r st =
     (case service_instances st (ref_to r) of
        None \<Rightarrow> st
      | Some si \<Rightarrow> st\<lparr>service_instances := (service_instances st)(ref_to r \<mapsto>
                     si\<lparr>si_pool_back_refs := removeAll u (si_pool_back_refs si)\<rparr>)\<rparr>)"

definition link_pool :: "string \<Rightarrow> obj_ref \<Rightarrow> store \<Rightarrow> store" where
  "link_pool u r st =
     (case service_instances st (ref_to r) of
        None \<Rightarrow> st
      | Some si \<Rightarrow> st\<lparr>service_instances := (service_instances st)(ref_to r \<mapsto>
                     si\<lparr>si_pool_back_refs := List.insert u (si_pool_back_refs si)\<rparr>)\<rparr>)"

definition refs_list :: "obj_ref list option \<Rightarrow> obj_ref list" where
  "refs_list rs = (case rs of None \<Rightarrow> [] | Some xs \<Rightarrow> xs)"

definition store_update_pool :: "loadbalancer_pool \<Rightarrow> store \<Rightarrow> exn + unit \<times> store" where
  "store_update_pool pool st =
     (case loadbalancer_pools st (pool_uuid pool) of
        None \<Rightarrow> Inl NoIdError
      | Some stored \<Rightarrow>
          (let st1 = fold (unlink_pool (pool_uuid pool)) (refs_list (service_instance_refs stored)) st;
               st2 = fold (link_pool (pool_uuid pool)) (refs_list (service_instance_refs pool)) st1
           in Inr ((), st2\<lparr>loadbalancer_pools := (loadbalancer_pools st2)(pool_uuid pool \<mapsto>
                            stored\<lparr>service_instance_refs := service_instance_refs pool\<rparr>)\<rparr>)))"

definition loadbalancer_pool_update :: "loadbalancer_pool \<Rightarrow> state \<Rightarrow> unit result" where
  "loadbalancer_pool_update pool =
     api_write (LoadbalancerPoolUpdate pool) (store_update_pool pool)"

text \<open>
  The setters of the client's objects: a reference is built from the qualified name of
  the target and its uuid. The driver passes only objects that were read or created, which
  have a uuid.
\<close>

definition uuid_of :: "string option \<Rightarrow> string" where
  "uuid_of u = (case u of None \<Rightarrow> [] | Some x \<Rightarrow> x)"

definition set_service_instance :: "loadbalancer_pool \<Rightarrow> service_instance \<Rightarrow> loadbalancer_pool" where
  "set_service_instance pool si_obj =
     pool\<lparr>service_instance_refs := Some [\<lparr>ref_to = si_fq_name si_obj, ref_uuid = uuid_of (si_uuid si_obj)\<rparr>]\<rparr>"

definition set_service_template :: "service_instance \<Rightarrow> service_template \<Rightarrow> service_instance" where
  "set_service_template si_obj tmpl =
     si_obj\<lparr>service_template_refs := Some [\<lparr>ref_to = tmpl_fq_name tmpl, ref_uuid = tmpl_uuid tmpl\<rparr>]\<rparr>"

text \<open>\<^verbatim>\<open>':'.join(segments)\<close>\<close>

fun colon_join :: "string list \<Rightarrow> string" where
  "colon_join [] = []"
| "colon_join [x] = x"
| "colon_join (x # y # ys) = x @ '':'' @ colon_join (y # ys)"

subsection \<open>The driver\<close>

definition LOADBALANCER_SERVICE_TEMPLATE :: "string list" where
  "LOADBALANCER_SERVICE_TEMPLATE = [''default-domain'', ''haproxy-loadbalancer-template'']"

text \<open>
  \<^verbatim>\<open>_get_template\<close>. The handler of \<^verbatim>\<open>NoIdError\<close> formats its message with \<^verbatim>\<open>pool_id\<close>,
  a name that is neither a parameter, a local nor a global of the module: evaluating the
  message raises \<^verbatim>\<open>NameError\<close> before \<^verbatim>\<open>BadRequest\<close> is built.
\<close>

definition get_template :: "state \<Rightarrow> unit result" where
  "get_template s =
     (case lb_template s of
        Some _ \<Rightarrow> (Inr (), s)
      | None \<Rightarrow>
          (case service_template_read LOADBALANCER_SERVICE_TEMPLATE s of
             (Inl e, s1) \<Rightarrow> if e = NoIdError then (Inl (NameError ''pool_id''), s1) else (Inl e, s1)
           | (Inr tmpl, s1) \<Rightarrow> (Inr (), s1\<lparr>lb_template := Some tmpl\<rparr>)))"

text \<open>\<^verbatim>\<open>_get_virtual_ip_interface\<close>\<close>

definition get_virtual_ip_interface :: "virtual_ip \<Rightarrow> state \<Rightarrow> virtual_machine_interface option result" where
  "get_virtual_ip_interface vip s =
     (case virtual_machine_interface_refs vip of
        None \<Rightarrow> (Inr None, s)
      | Some [] \<Rightarrow> (Inl IndexError, s)
      | Some (r # _) \<Rightarrow>
          (case virtual_machine_interface_read (ref_uuid r) s of
             (Inl ex, s1) \<Rightarrow> if ex = NoIdError then (Inr None, LOG_error ex s1) else (Inl ex, s1)
           | (Inr vmi, s1) \<Rightarrow> (Inr (Some vmi), s1)))"

text \<open>
  \<^verbatim>\<open>_get_interface_address\<close>. The uuid of the first back reference is the key of the read.
\<close>

definition get_interface_address :: "virtual_machine_interface \<Rightarrow> state \<Rightarrow> string option result" where
  "get_interface_address vmi s =
     (case instance_ip_back_refs vmi of
        None \<Rightarrow> (Inr None, s)
      | Some [] \<Rightarrow> (Inl IndexError, s)
      | Some (r # _) \<Rightarrow>
          (case instance_ip_read (ref_uuid r) s of
             (Inl ex, s1) \<Rightarrow> if ex = NoIdError then (Inr None, LOG_error ex s1) else (Inl ex, s1)
           | (Inr iip, s1) \<Rightarrow> (Inr (instance_ip_address iip), s1)))"

text \<open>
  \<^verbatim>\<open>_calculate_instance_properties\<close>. \<^verbatim>\<open>None\<close> is "no configuration".
  \<open>left_network_step\<close> is the comparison of the two network ids with its body, the last
  statement before the final \<^verbatim>\<open>return props\<close>. Its assignment calls \<^verbatim>\<open>join\<close> on the
  list returned by \<^verbatim>\<open>get_fq_name()\<close>; a Python list has no such attribute, so the call
  raises \<^verbatim>\<open>AttributeError\<close>.
\<close>

definition left_network_step ::
    "service_instance_type \<Rightarrow> string \<Rightarrow> obj_ref \<Rightarrow> state \<Rightarrow> service_instance_type option result" where
  "left_network_step props backnet_id vnet_ref s =
     (if backnet_id \<noteq> ref_uuid vnet_ref then
        (case virtual_network_read backnet_id s of
           (Inl ex, s1) \<Rightarrow> if ex = NoIdError then (Inr None, LOG_error ex s1) else (Inl ex, s1)
         | (Inr vnet, s1) \<Rightarrow> (Inl (AttributeError ''join''), s1))
      else (Inr (Some props), s))"

definition calculate_instance_properties ::
    "loadbalancer_pool \<Rightarrow> virtual_ip \<Rightarrow> state \<Rightarrow> service_instance_type option result" where
  "calculate_instance_properties pool vip s =
     (let props = ServiceInstanceType in
      case get_virtual_ip_interface vip s of
        (Inl ex, s1) \<Rightarrow> (Inl ex, s1)
      | (Inr None, s1) \<Rightarrow> (Inr None, s1)
      | (Inr (Some vmi), s1) \<Rightarrow>
          (case virtual_network_refs vmi of
             None \<Rightarrow> (Inr None, s1)
           | Some [] \<Rightarrow> (Inl IndexError, s1)
           | Some (vnet_ref # _) \<Rightarrow>
               (let props1 = props\<lparr>right_virtual_network := Some (colon_join (ref_to vnet_ref))\<rparr> in
                case get_interface_address vmi s1 of
                  (Inl ex, s2) \<Rightarrow> (Inl ex, s2)
                | (Inr addr, s2) \<Rightarrow>
                    (let props2 = props1\<lparr>right_ip_address := addr\<rparr> in
                     if right_ip_address props2 = None then (Inr None, s2)
                     else
                       (case loadbalancer_pool_properties pool of
                          None \<Rightarrow> (Inl (AttributeError ''subnet_id''), s2)
                        | Some pool_attrs \<Rightarrow>
                            (case get_subnet_network_id (subnet_id pool_attrs) s2 of
                               (Inl ex, s3) \<Rightarrow> (Inl ex, s3)
                             | (Inr backnet_id, s3) \<Rightarrow>
                                 left_network_step props2 backnet_id vnet_ref s3))))))"

text \<open>
  \<^verbatim>\<open>_service_instance_update_props\<close>. \<open>getattr_prop\<close> is \<^verbatim>\<open>getattr\<close> on a properties
  record, \<open>fields_list\<close> the list \<^verbatim>\<open>fields\<close>, \<open>update_loop\<close> the \<^verbatim>\<open>for\<close> loop with its
  \<^verbatim>\<open>break\<close>. When the instance has no properties record, \<^verbatim>\<open>getattr(None, field)\<close>
  raises. The object's properties are replaced whatever the loop found.
\<close>

definition fields_list :: "string list" where
  "fields_list = [''right_virtual_network'', ''right_ip_address'', ''left_virtual_network'']"

definition getattr_prop :: "service_instance_type \<Rightarrow> string \<Rightarrow> exn + string option" where
  "getattr_prop p field =
     (if field = ''right_virtual_network'' then Inr (right_virtual_network p)
      else if field = ''right_ip_address'' then Inr (right_ip_address p)
      else if field = ''left_virtual_network'' then Inr (left_virtual_network p)
      else Inl (AttributeError field))"

fun update_loop :: "service_instance_type \<Rightarrow> service_instance_type \<Rightarrow> string list \<Rightarrow> exn + bool" where
  "update_loop current nprops [] = Inr False"
| "update_loop current nprops (field # rest) =
     (case getattr_prop current field of
        Inl ex \<Rightarrow> Inl ex
      | Inr a \<Rightarrow>
          (case getattr_prop nprops field of
             Inl ex \<Rightarrow> Inl ex
           | Inr b \<Rightarrow> if a \<noteq> b then Inr True else update_loop current nprops rest))"

definition service_instance_update_props ::
    "service_instance \<Rightarrow> service_instance_type \<Rightarrow> exn + (bool \<times> service_instance)" where
  "service_instance_update_props si_obj nprops =
     (case service_instance_properties si_obj of
        None \<Rightarrow> Inl (AttributeError (hd fields_list))
      | Some current \<Rightarrow>
          (case update_loop current nprops fields_list of
             Inl ex \<Rightarrow> Inl ex
           | Inr update \<Rightarrow> Inr (update, si_obj\<lparr>service_instance_properties := Some nprops\<rparr>)))"

text \<open>
  The statement \<^verbatim>\<open>try: service_instance_delete(fq_name=fq_name)\<close> with its handler of
  \<^verbatim>\<open>RefsExistError\<close>, as it stands in \<^verbatim>\<open>_update_loadbalancer_instance\<close> and in
  \<^verbatim>\<open>_clear_loadbalancer_instance\<close>: no other exception is handled.
\<close>

definition try_service_instance_delete :: "string list \<Rightarrow> state \<Rightarrow> unit result" where
  "try_service_instance_delete fq_name s =
     (case service_instance_delete fq_name s of
        (Inl ex, s1) \<Rightarrow> if ex = RefsExistError then (Inr (), LOG_error ex s1) else (Inl ex, s1)
      | (Inr _, s1) \<Rightarrow> (Inr (), s1))"

text \<open>
  The handler of \<^verbatim>\<open>NoIdError\<close> in \<^verbatim>\<open>_update_loadbalancer_instance\<close>: build the instance,
  attach the cached template, create it.
\<close>

definition create_instance :: "string list \<Rightarrow> service_instance_type \<Rightarrow> state \<Rightarrow> service_instance result" where
  "create_instance fq_name props s =
     (let si_obj = \<lparr>si_fq_name = fq_name, si_uuid = None, si_parent_type = ''project'',
                     service_instance_properties = Some props, service_template_refs = None,
                     si_pool_back_refs = []\<rparr> in
      case lb_template s of
        None \<Rightarrow> (Inl (AttributeError ''get_fq_name''), s)
      | Some tmpl \<Rightarrow> service_instance_create (set_service_template si_obj tmpl) s)"

text \<open>
  The \<^verbatim>\<open>try\<close> statement that reads the instance, compares the properties and updates or,
  on \<^verbatim>\<open>NoIdError\<close> from any call of its body, creates. It yields \<^verbatim>\<open>si_obj\<close>.
\<close>

definition resolve_instance :: "string list \<Rightarrow> service_instance_type \<Rightarrow> state \<Rightarrow> service_instance result" where
  "resolve_instance fq_name props s =
     (case service_instance_read fq_name s of
        (Inl ex, s1) \<Rightarrow> if ex = NoIdError then create_instance fq_name props s1 else (Inl ex, s1)
      | (Inr si_read, s1) \<Rightarrow>
          (case service_instance_update_props si_read props of
             Inl ex \<Rightarrow> if ex = NoIdError then create_instance fq_name props s1 else (Inl ex, s1)
           | Inr (update, si_obj) \<Rightarrow>
               if update then
                 (case service_instance_update si_obj s1 of
                    (Inl ex, s2) \<Rightarrow>
                      if ex = NoIdError then create_instance fq_name props s2 else (Inl ex, s2)
                  | (Inr _, s2) \<Rightarrow> (Inr si_obj, s2))
               else (Inr si_obj, s1)))"

text \<open>The last statement: the pool's reference to its service instance.\<close>

definition associate_pool :: "loadbalancer_pool \<Rightarrow> service_instance \<Rightarrow> state \<Rightarrow> unit result" where
  "associate_pool pool si_obj s =
     (case service_instance_refs pool of
        None \<Rightarrow> loadbalancer_pool_update (set_service_instance pool si_obj) s
      | Some [] \<Rightarrow> (Inl IndexError, s)
      | Some (r # _) \<Rightarrow>
          if Some (ref_uuid r) \<noteq> si_uuid si_obj
          then loadbalancer_pool_update (set_service_instance pool si_obj) s
          else (Inr (), s))"

text \<open>\<^verbatim>\<open>pool.get_fq_name()[:-1]\<close> followed by \<^verbatim>\<open>append(pool_id)\<close>\<close>

definition instance_fq_name :: "loadbalancer_pool \<Rightarrow> string \<Rightarrow> string list" where
  "instance_fq_name pool pool_id = butlast (pool_fq_name pool) @ [pool_id]"

text \<open>\<^verbatim>\<open>_update_loadbalancer_instance\<close>\<close>

definition update_loadbalancer_instance :: "string \<Rightarrow> string \<Rightarrow> state \<Rightarrow> unit result" where
  "update_loadbalancer_instance pool_id vip_id s =
     (case loadbalancer_pool_read pool_id s of
        (Inl ex, s1) \<Rightarrow>
          if ex = NoIdError
          then (Inl (BadRequest ''pool'' (''Unable to retrieve pool '' @ pool_id)), s1)
          else (Inl ex, s1)
      | (Inr pool, s1) \<Rightarrow>
          (case virtual_ip_read vip_id s1 of
             (Inl ex, s2) \<Rightarrow>
               if ex = NoIdError
               then (Inl (BadRequest ''vip'' (''Unable to retrieve virtual-ip '' @ vip_id)), s2)
               else (Inl ex, s2)
           | (Inr vip, s2) \<Rightarrow>
               (let fq_name = instance_fq_name pool pool_id in
                case calculate_instance_properties pool vip s2 of
                  (Inl ex, s3) \<Rightarrow> (Inl ex, s3)
                | (Inr None, s3) \<Rightarrow> try_service_instance_delete fq_name s3
                | (Inr (Some props), s3) \<Rightarrow>
                    (case get_template s3 of
                       (Inl ex, s4) \<Rightarrow> (Inl ex, s4)
                     | (Inr _, s4) \<Rightarrow>
                         (case resolve_instance fq_name props s4 of
                            (Inl ex, s5) \<Rightarrow> (Inl ex, s5)
                          | (Inr si_obj, s5) \<Rightarrow> associate_pool pool si_obj s5)))))"

text \<open>\<^verbatim>\<open>_clear_loadbalancer_instance\<close>\<close>

definition clear_loadbalancer_instance :: "string \<Rightarrow> string \<Rightarrow> state \<Rightarrow> unit result" where
  "clear_loadbalancer_instance tenant_id pool_id s =
     (case project_read tenant_id s of
        (Inl ex, s1) \<Rightarrow> if ex = NoIdError then (Inr (), LOG_error ex s1) else (Inl ex, s1)
      | (Inr project, s1) \<Rightarrow>
          try_service_instance_delete (project_fq_name project @ [pool_id]) s1)"

subsection \<open>The handlers of the plugin's events\<close>

text \<open>
  The resource dictionaries of the plugin. A relation field holds an id, an empty string
  or \<^verbatim>\<open>None\<close>; the last two are false in a condition.
\<close>

record vip_dict =
  vipd_id :: string
  vipd_tenant_id :: string
  vipd_pool_id :: "string option"

record pool_dict =
  poold_id :: string
  poold_tenant_id :: string
  poold_vip_id :: "string option"

definition truthy :: "string option \<Rightarrow> bool" where
  "truthy v = (case v of None \<Rightarrow> False | Some x \<Rightarrow> x \<noteq> [])"

definition field_value :: "string option \<Rightarrow> string" where
  "field_value v = (case v of None \<Rightarrow> [] | Some x \<Rightarrow> x)"

definition create_vip :: "vip_dict \<Rightarrow> state \<Rightarrow> unit result" where
  "create_vip vip s =
     (case get_template s of
        (Inl ex, s1) \<Rightarrow> (Inl ex, s1)
      | (Inr _, s1) \<Rightarrow>
          if truthy (vipd_pool_id vip)
          then update_loadbalancer_instance (field_value (vipd_pool_id vip)) (vipd_id vip) s1
          else (Inr (), s1))"

definition update_vip :: "vip_dict \<Rightarrow> vip_dict \<Rightarrow> state \<Rightarrow> unit result" where
  "update_vip old_vip vip s =
     (if truthy (vipd_pool_id vip)
      then update_loadbalancer_instance (field_value (vipd_pool_id vip)) (vipd_id vip) s
      else if truthy (vipd_pool_id old_vip)
      then clear_loadbalancer_instance (vipd_tenant_id old_vip) (field_value (vipd_pool_id old_vip)) s
      else (Inr (), s))"

definition delete_vip :: "vip_dict \<Rightarrow> state \<Rightarrow> unit result" where
  "delete_vip vip s =
     (if truthy (vipd_pool_id vip)
      then clear_loadbalancer_instance (vipd_tenant_id vip) (field_value (vipd_pool_id vip)) s
      else (Inr (), s))"

definition create_pool :: "pool_dict \<Rightarrow> state \<Rightarrow> unit result" where
  "create_pool pool s =
     (case get_template s of
        (Inl ex, s1) \<Rightarrow> (Inl ex, s1)
      | (Inr _, s1) \<Rightarrow>
          if truthy (poold_vip_id pool)
          then update_loadbalancer_instance (poold_id pool) (field_value (poold_vip_id pool)) s1
          else (Inr (), s1))"

definition update_pool :: "pool_dict \<Rightarrow> pool_dict \<Rightarrow> state \<Rightarrow> unit result" where
  "update_pool old_pool pool s =
     (if truthy (poold_vip_id pool)
      then update_loadbalancer_instance (poold_id pool) (field_value (poold_vip_id pool)) s
      else clear_loadbalancer_instance (poold_tenant_id pool) (poold_id pool) s)"

definition delete_pool :: "pool_dict \<Rightarrow> state \<Rightarrow> unit result" where
  "delete_pool pool s = clear_loadbalancer_instance (poold_tenant_id pool) (poold_id pool) s"

section \<open>Notions for the statements and their proofs\<close>

text \<open>The calls made between two states, and runs that only read.\<close>

definition calls_since :: "state \<Rightarrow> state \<Rightarrow> api_call list" where
  "calls_since s s' = drop (length (calls s)) (calls s')"

definition only_reads :: "state \<Rightarrow> state \<Rightarrow> bool" where
  "only_reads s s' \<longleftrightarrow>
     remote s' = remote s \<and> lb_template s' = lb_template s \<and>
     (\<exists>cs. calls s' = calls s @ cs \<and> filter is_write cs = [] \<and> filter is_template_read cs = [])"

text \<open>
  The result of the property calculation as a function of the store alone, and the
  condition under which the template can be loaded.
\<close>

definition desired_properties ::
    "store \<Rightarrow> loadbalancer_pool_type option \<Rightarrow> virtual_ip \<Rightarrow> exn + service_instance_type option" where
  "desired_properties st pool_attrs vip =
     (case virtual_machine_interface_refs vip of
        None \<Rightarrow> Inr None
      | Some [] \<Rightarrow> Inl IndexError
      | Some (r # _) \<Rightarrow>
          (case virtual_machine_interfaces st (ref_uuid r) of
             None \<Rightarrow> Inr None
           | Some vmi \<Rightarrow>
               (case virtual_network_refs vmi of
                  None \<Rightarrow> Inr None
                | Some [] \<Rightarrow> Inl IndexError
                | Some (vnet_ref # _) \<Rightarrow>
                    (case instance_ip_back_refs vmi of
                       None \<Rightarrow> Inr None
                     | Some [] \<Rightarrow> Inl IndexError
                     | Some (i # _) \<Rightarrow>
                         (case instance_ips st (ref_uuid i) of
                            None \<Rightarrow> Inr None
                          | Some iip \<Rightarrow>
                              (case instance_ip_address iip of
                                 None \<Rightarrow> Inr None
                               | Some addr \<Rightarrow>
                                   (case pool_attrs of
                                      None \<Rightarrow> Inl (AttributeError ''subnet_id'')
                                    | Some attrs \<Rightarrow>
                                        (case subnet_network st (subnet_id attrs) of
                                           None \<Rightarrow> Inl NoIdError
                                         | Some backnet_id \<Rightarrow>
                                             if backnet_id \<noteq> ref_uuid vnet_ref then
                                               (case virtual_networks st backnet_id of
                                                  None \<Rightarrow> Inr None
                                                | Some _ \<Rightarrow> Inl (AttributeError ''join''))
                                             else Inr (Some \<lparr>right_virtual_network = Some (colon_join (ref_to vnet_ref)),
                                                    right_ip_address = Some addr,
                                                    left_virtual_network = None\<rparr>)))))))))"

definition no_writes :: "state \<Rightarrow> state \<Rightarrow> bool" where
  "no_writes s s' \<longleftrightarrow> remote s' = remote s \<and> (\<exists>cs. calls s' = calls s @ cs \<and> filter is_write cs = [])"

definition template_available :: "state \<Rightarrow> bool" where
  "template_available s \<longleftrightarrow>
     lb_template s \<noteq> None \<or> service_templates (remote s) LOADBALANCER_SERVICE_TEMPLATE \<noteq> None"

text \<open>
  The pairs for which no configuration can be computed, in the words of the
  specification: the VIP has no interface reference, or the interface is not in the store,
  or the interface has no virtual-network reference, or no address can be resolved (the
  interface has no instance-ip back reference, the instance ip is not in the store, or it
  carries no address).
\<close>

definition address_unresolved :: "store \<Rightarrow> virtual_machine_interface \<Rightarrow> bool" where
  "address_unresolved st vmi =
     (case instance_ip_back_refs vmi of
        None \<Rightarrow> True
      | Some [] \<Rightarrow> False
      | Some (i # _) \<Rightarrow>
          (case instance_ips st (ref_uuid i) of
             None \<Rightarrow> True
           | Some iip \<Rightarrow> instance_ip_address iip = None))"

definition interface_unresolved :: "store \<Rightarrow> virtual_ip \<Rightarrow> bool" where
  "interface_unresolved st vip =
     (case virtual_machine_interface_refs vip of
        None \<Rightarrow> True
      | Some [] \<Rightarrow> False
      | Some (r # _) \<Rightarrow>
          (case virtual_machine_interfaces st (ref_uuid r) of
             None \<Rightarrow> True
           | Some vmi \<Rightarrow>
               (case virtual_network_refs vmi of
                  None \<Rightarrow> True
                | Some [] \<Rightarrow> False
                | Some (_ # _) \<Rightarrow> address_unresolved st vmi)))"

text \<open>
  What the property calculation reads of the store, what a pool update leaves alone, and
  what it leaves alone of a service instance.
\<close>

definition calc_view ::
    "store \<Rightarrow> (string \<rightharpoonup> virtual_machine_interface) \<times> (string \<rightharpoonup> instance_ip)
       \<times> (string \<rightharpoonup> virtual_network) \<times> (string \<rightharpoonup> string)" where
  "calc_view st = (virtual_machine_interfaces st, instance_ips st, virtual_networks st, subnet_network st)"

definition store_frame ::
    "store \<Rightarrow> ((string \<rightharpoonup> virtual_machine_interface) \<times> (string \<rightharpoonup> instance_ip)
       \<times> (string \<rightharpoonup> virtual_network) \<times> (string \<rightharpoonup> string))
       \<times> (string \<rightharpoonup> loadbalancer_pool) \<times> (string \<rightharpoonup> virtual_ip)
       \<times> (string list \<rightharpoonup> service_template)" where
  "store_frame st = (calc_view st, loadbalancer_pools st, virtual_ips st, service_templates st)"

definition si_core :: "service_instance \<Rightarrow> string option \<times> service_instance_type option" where
  "si_core si = (si_uuid si, service_instance_properties si)"

text \<open>
  The condition of the last statement of reconcile, in the words of the specification: the
  pool has no stored reference to a service instance, or the uuid of the stored reference
  differs from the uuid of the resolved instance.
\<close>

definition reference_differs :: "obj_ref list option \<Rightarrow> string option \<Rightarrow> bool" where
  "reference_differs refs uuid =
     (case refs of
        None \<Rightarrow> True
      | Some [] \<Rightarrow> False
      | Some (r # _) \<Rightarrow> Some (ref_uuid r) \<noteq> uuid)"

text \<open>The number of the three fields in which two properties records differ.\<close>

definition differing_fields :: "service_instance_type \<Rightarrow> service_instance_type \<Rightarrow> nat" where
  "differing_fields a b =
     length (filter (\<lambda>field. getattr_prop a field \<noteq> getattr_prop b field) fields_list)"

text \<open>
  A service instance can be created or found under a name: either none is stored under
  it, or the one stored there carries that name and has a properties record.
\<close>

definition instance_resolvable :: "store \<Rightarrow> string list \<Rightarrow> bool" where
  "instance_resolvable st fq =
     (case service_instances st fq of
        None \<Rightarrow> True
      | Some si \<Rightarrow> si_fq_name si = fq \<and> service_instance_properties si \<noteq> None)"

text \<open>
  The instance stored under a name, if there is one, has a uuid, as every object of the
  store has; and the instance stored under a name has a properties record that agrees
  with given properties in the three fields.
\<close>

definition instance_identified :: "store \<Rightarrow> string list \<Rightarrow> bool" where
  "instance_identified st fq =
     (case service_instances st fq of
        None \<Rightarrow> True
      | Some si \<Rightarrow> si_uuid si \<noteq> None)"

definition in_sync :: "store \<Rightarrow> string list \<Rightarrow> service_instance_type \<Rightarrow> bool" where
  "in_sync st fq nprops =
     (case service_instances st fq of
        None \<Rightarrow> False
      | Some si \<Rightarrow>
          (case service_instance_properties si of
             None \<Rightarrow> False
           | Some current \<Rightarrow>
               right_virtual_network current = right_virtual_network nprops
               \<and> right_ip_address current = right_ip_address nprops
               \<and> left_virtual_network current = left_virtual_network nprops))"

section \<open>The scenarios of the specification\<close>

definition demo_scope :: "string list" where
  "demo_scope = [''default-domain'', ''demo'']"

definition net_A_ref :: obj_ref where
  "net_A_ref = \<lparr>ref_to = demo_scope @ [''net-A''], ref_uuid = ''net-A-id''\<rparr>"

definition demo_vmi :: virtual_machine_interface where
  "demo_vmi = \<lparr>virtual_network_refs = Some [net_A_ref],
               instance_ip_back_refs = Some [\<lparr>ref_to = [''iip1''], ref_uuid = ''iip1-id''\<rparr>]\<rparr>"

definition demo_pool :: loadbalancer_pool where
  "demo_pool = \<lparr>pool_fq_name = demo_scope @ [''pool-one''], pool_uuid = ''p1'',
                loadbalancer_pool_properties = Some \<lparr>subnet_id = ''subnet-A''\<rparr>,
                service_instance_refs = None\<rparr>"

definition demo_vip :: virtual_ip where
  "demo_vip = \<lparr>vip_fq_name = demo_scope @ [''vip-one''],
               virtual_machine_interface_refs =
                 Some [\<lparr>ref_to = demo_scope @ [''vmi1''], ref_uuid = ''vmi1-id''\<rparr>]\<rparr>"

definition demo_template :: service_template where
  "demo_template = \<lparr>tmpl_fq_name = LOADBALANCER_SERVICE_TEMPLATE, tmpl_uuid = ''tmpl-id''\<rparr>"

text \<open>
  Pool \<^verbatim>\<open>p1\<close> on a subnet of \<^verbatim>\<open>net-A\<close>, VIP \<^verbatim>\<open>v1\<close> on an interface of \<^verbatim>\<open>net-A\<close> with
  the address 10.0.0.5, no service instance yet.
\<close>

definition demo_store :: store where
  "demo_store =
     \<lparr>projects = [''tenant1'' \<mapsto> \<lparr>project_fq_name = demo_scope\<rparr>],
      virtual_networks = [''net-A-id'' \<mapsto> \<lparr>vn_fq_name = demo_scope @ [''net-A'']\<rparr>,
                          ''net-B-id'' \<mapsto> \<lparr>vn_fq_name = demo_scope @ [''net-B'']\<rparr>],
      virtual_machine_interfaces = [''vmi1-id'' \<mapsto> demo_vmi],
      instance_ips = [''iip1-id'' \<mapsto> \<lparr>instance_ip_address = Some ''10.0.0.5''\<rparr>],
      loadbalancer_pools = [''p1'' \<mapsto> demo_pool],
      virtual_ips = [''v1'' \<mapsto> demo_vip],
      service_templates = [LOADBALANCER_SERVICE_TEMPLATE \<mapsto> demo_template],
      service_instances = Map.empty,
      subnet_network = [''subnet-A'' \<mapsto> ''net-A-id'', ''subnet-B'' \<mapsto> ''net-B-id''],
      uuid_counter = 0\<rparr>"

definition initial_state :: "store \<Rightarrow> state" where
  "initial_state st = \<lparr>remote = st, calls = [], logged = [], lb_template = None\<rparr>"

definition demo_props :: service_instance_type where
  "demo_props = \<lparr>right_virtual_network = Some ''default-domain:demo:net-A'',
                 right_ip_address = Some ''10.0.0.5'', left_virtual_network = None\<rparr>"

text \<open>The same with the pool on a subnet of \<^verbatim>\<open>net-B\<close>.\<close>

definition two_network_pool :: loadbalancer_pool where
  "two_network_pool = demo_pool\<lparr>loadbalancer_pool_properties := Some \<lparr>subnet_id = ''subnet-B''\<rparr>\<rparr>"

definition two_network_store :: store where
  "two_network_store = demo_store\<lparr>loadbalancer_pools := [''p1'' \<mapsto> two_network_pool]\<rparr>"

text \<open>The same without the service template.\<close>

definition no_template_store :: store where
  "no_template_store = demo_store\<lparr>service_templates := Map.empty\<rparr>"

text \<open>The same with a VIP that has no interface.\<close>

definition unbound_vip :: virtual_ip where
  "unbound_vip = demo_vip\<lparr>virtual_machine_interface_refs := None\<rparr>"

definition unbound_store :: store where
  "unbound_store = demo_store\<lparr>virtual_ips := [''v1'' \<mapsto> unbound_vip]\<rparr>"

text \<open>
  A service instance for \<^verbatim>\<open>p1\<close> with the properties of the first scenario: deployed but
  not yet referred to by the pool, referred to by the pool, and with an address that has
  since changed.
\<close>

definition demo_instance :: service_instance where
  "demo_instance =
     \<lparr>si_fq_name = demo_scope @ [''p1''], si_uuid = Some ''si-1'', si_parent_type = ''project'',
      service_instance_properties = Some demo_props,
      service_template_refs =
        Some [\<lparr>ref_to = LOADBALANCER_SERVICE_TEMPLATE, ref_uuid = ''tmpl-id''\<rparr>],
      si_pool_back_refs = []\<rparr>"

definition deployed_store :: store where
  "deployed_store = demo_store\<lparr>service_instances := [demo_scope @ [''p1''] \<mapsto> demo_instance]\<rparr>"

definition associated_pool :: loadbalancer_pool where
  "associated_pool =
     demo_pool\<lparr>service_instance_refs := Some [\<lparr>ref_to = demo_scope @ [''p1''], ref_uuid = ''si-1''\<rparr>]\<rparr>"

definition associated_store :: store where
  "associated_store =
     demo_store\<lparr>loadbalancer_pools := [''p1'' \<mapsto> associated_pool],
                service_instances :=
                  [demo_scope @ [''p1''] \<mapsto> demo_instance\<lparr>si_pool_back_refs := [''p1'']\<rparr>]\<rparr>"

definition drifted_props :: service_instance_type where
  "drifted_props = demo_props\<lparr>right_ip_address := Some ''10.0.0.4''\<rparr>"

definition drifted_instance :: service_instance where
  "drifted_instance = demo_instance\<lparr>service_instance_properties := Some drifted_props\<rparr>"

definition drifted_store :: store where
  "drifted_store = demo_store\<lparr>service_instances := [demo_scope @ [''p1''] \<mapsto> drifted_instance]\<rparr>"

text \<open>The VIP without an interface, with the deployed and with the associated instance.\<close>

definition unbound_deployed_store :: store where
  "unbound_deployed_store = deployed_store\<lparr>virtual_ips := [''v1'' \<mapsto> unbound_vip]\<rparr>"

definition unbound_associated_store :: store where
  "unbound_associated_store = associated_store\<lparr>virtual_ips := [''v1'' \<mapsto> unbound_vip]\<rparr>"

section \<open>Properties of the model\<close>

lemma only_reads_refl [simp]: "only_reads s s"
  by (simp add: only_reads_def)

lemma only_reads_trans: "only_reads s t \<Longrightarrow> only_reads t u \<Longrightarrow> only_reads s u"
  by (auto simp: only_reads_def)

lemma only_reads_LOG_error: "only_reads s t \<Longrightarrow> only_reads s (LOG_error ex t)"
  by (auto simp: only_reads_def LOG_error_def)

lemma api_read_only_reads:
  assumes "api_read table call k s = (r, s')" "\<not> is_write (call k)" "\<not> is_template_read (call k)"
  shows "only_reads s s'"
  using assms by (auto simp: api_read_def only_reads_def record_call_def split: option.splits)

lemma get_virtual_ip_interface_only_reads:
  "get_virtual_ip_interface vip s = (r, s') \<Longrightarrow> only_reads s s'"
  unfolding get_virtual_ip_interface_def virtual_machine_interface_read_def
  by (auto split: option.splits list.splits prod.splits sum.splits if_splits
      dest!: api_read_only_reads intro: only_reads_LOG_error)

lemma get_interface_address_only_reads:
  "get_interface_address vmi s = (r, s') \<Longrightarrow> only_reads s s'"
  unfolding get_interface_address_def instance_ip_read_def
  by (auto split: option.splits list.splits prod.splits sum.splits if_splits
      dest!: api_read_only_reads intro: only_reads_LOG_error)

lemma left_network_step_only_reads:
  "left_network_step props b r0 s = (r, s') \<Longrightarrow> only_reads s s'"
  unfolding left_network_step_def virtual_network_read_def
  by (auto split: option.splits list.splits prod.splits sum.splits if_splits
      dest!: api_read_only_reads intro: only_reads_LOG_error)

lemma get_subnet_network_id_only_reads:
  "get_subnet_network_id k s = (r, s') \<Longrightarrow> only_reads s s'"
  unfolding get_subnet_network_id_def
  by (auto dest!: api_read_only_reads)

lemma calculate_instance_properties_only_reads:
  "calculate_instance_properties pool vip s = (r, s') \<Longrightarrow> only_reads s s'"
  unfolding calculate_instance_properties_def Let_def
  by (auto split: option.splits list.splits prod.splits sum.splits if_splits
      dest!: get_virtual_ip_interface_only_reads get_interface_address_only_reads
        left_network_step_only_reads get_subnet_network_id_only_reads
      intro: only_reads_trans)

lemma remote_record_call [simp]: "remote (record_call c s) = remote s"
  by (simp add: record_call_def)

lemma remote_LOG_error [simp]: "remote (LOG_error e s) = remote s"
  by (simp add: LOG_error_def)

lemma calculate_instance_properties_fst:
  "fst (calculate_instance_properties pool vip s)
     = desired_properties (remote s) (loadbalancer_pool_properties pool) vip"
  unfolding calculate_instance_properties_def desired_properties_def Let_def
    get_virtual_ip_interface_def get_interface_address_def left_network_step_def
    get_subnet_network_id_def virtual_machine_interface_read_def instance_ip_read_def
    virtual_network_read_def api_read_def ServiceInstanceType_def
  by (auto split: option.splits list.splits)

lemma lb_template_record_call [simp]: "lb_template (record_call c s) = lb_template s"
  by (simp add: record_call_def)

lemma lb_template_LOG_error [simp]: "lb_template (LOG_error e s) = lb_template s"
  by (simp add: LOG_error_def)

lemma calls_record_call [simp]: "calls (record_call c s) = calls s @ [c]"
  by (simp add: record_call_def)

lemma calls_LOG_error [simp]: "calls (LOG_error e s) = calls s"
  by (simp add: LOG_error_def)

lemma logged_record_call [simp]: "logged (record_call c s) = logged s"
  by (simp add: record_call_def)

lemma logged_LOG_error [simp]: "logged (LOG_error e s) = logged s @ [e]"
  by (simp add: LOG_error_def)

lemma calls_since_append [simp]: "calls s' = calls s @ cs \<Longrightarrow> calls_since s s' = cs"
  by (simp add: calls_since_def)

lemma api_read_Some: "table (remote s) k = Some v \<Longrightarrow> api_read table call k s = (Inr v, record_call (call k) s)"
  by (simp add: api_read_def)

lemma api_read_None: "table (remote s) k = None \<Longrightarrow> api_read table call k s = (Inl NoIdError, record_call (call k) s)"
  by (simp add: api_read_def)

lemma service_instance_delete_fst:
  "fst (service_instance_delete fq s)
     = (case service_instances (remote s) fq of None \<Rightarrow> Inl NoIdError
        | Some si \<Rightarrow> if si_pool_back_refs si \<noteq> [] then Inl RefsExistError else Inr ())"
  by (simp add: service_instance_delete_def api_write_def store_delete_instance_def split: option.splits)

lemma try_delete_calls:
  "calls (snd (try_service_instance_delete fq s)) = calls s @ [ServiceInstanceDelete fq]"
  by (simp add: try_service_instance_delete_def service_instance_delete_def api_write_def store_delete_instance_def
      split: option.splits)

lemma try_delete_lb_template:
  "lb_template (snd (try_service_instance_delete fq s)) = lb_template s"
  by (simp add: try_service_instance_delete_def service_instance_delete_def api_write_def store_delete_instance_def
      split: option.splits)

lemma try_delete_fst:
  "fst (try_service_instance_delete fq s)
     = (case service_instances (remote s) fq of None \<Rightarrow> Inl NoIdError | Some si \<Rightarrow> Inr ())"
  by (simp add: try_service_instance_delete_def service_instance_delete_def api_write_def store_delete_instance_def
      split: option.splits)

lemma update_after_reads:
  assumes "loadbalancer_pools (remote s) pool_id = Some pool"
    and "virtual_ips (remote s) vip_id = Some vip"
  shows "update_loadbalancer_instance pool_id vip_id s =
     (case calculate_instance_properties pool vip
             (record_call (VirtualIpRead vip_id) (record_call (LoadbalancerPoolRead pool_id) s)) of
        (Inl ex, s3) \<Rightarrow> (Inl ex, s3)
      | (Inr None, s3) \<Rightarrow> try_service_instance_delete (instance_fq_name pool pool_id) s3
      | (Inr (Some props), s3) \<Rightarrow>
          (case get_template s3 of
             (Inl ex, s4) \<Rightarrow> (Inl ex, s4)
           | (Inr _, s4) \<Rightarrow>
               (case resolve_instance (instance_fq_name pool pool_id) props s4 of
                  (Inl ex, s5) \<Rightarrow> (Inl ex, s5)
                | (Inr si_obj, s5) \<Rightarrow> associate_pool pool si_obj s5)))"
  using assms
  by (simp add: update_loadbalancer_instance_def loadbalancer_pool_read_def virtual_ip_read_def
      api_read_Some Let_def)

lemma update_no_configuration:
  assumes pool: "loadbalancer_pools (remote s) pool_id = Some pool"
    and vip: "virtual_ips (remote s) vip_id = Some vip"
    and none: "fst (calculate_instance_properties pool vip s) = Inr None"
  obtains s3 where
    "update_loadbalancer_instance pool_id vip_id s
       = try_service_instance_delete (instance_fq_name pool pool_id) s3"
    "only_reads s s3"
proof -
  let ?s2 = "record_call (VirtualIpRead vip_id) (record_call (LoadbalancerPoolRead pool_id) s)"
  obtain r3 s3 where c: "calculate_instance_properties pool vip ?s2 = (r3, s3)" by fastforce
  have "r3 = Inr None"
    using none c calculate_instance_properties_fst [of pool vip ?s2]
      calculate_instance_properties_fst [of pool vip s] by simp
  then have u: "update_loadbalancer_instance pool_id vip_id s
       = try_service_instance_delete (instance_fq_name pool pool_id) s3"
    using update_after_reads [OF pool vip] c by simp
  have "only_reads s ?s2" by (simp add: only_reads_def)
  then have "only_reads s s3"
    using calculate_instance_properties_only_reads [OF c] only_reads_trans by blast
  with u show thesis using that by blast
qed

lemma no_writes_refl [simp]: "no_writes s s"
  by (simp add: no_writes_def)

lemma no_writes_trans: "no_writes s t \<Longrightarrow> no_writes t u \<Longrightarrow> no_writes s u"
  by (auto simp: no_writes_def)

lemma only_reads_no_writes: "only_reads s t \<Longrightarrow> no_writes s t"
  by (auto simp: no_writes_def only_reads_def)

lemma get_template_fst:
  "fst (get_template s) = (if template_available s then Inr () else Inl (NameError ''pool_id''))"
  by (auto simp: get_template_def template_available_def service_template_read_def api_read_def
      split: option.splits)

lemma get_template_no_writes: "no_writes s (snd (get_template s))"
  by (auto simp: get_template_def service_template_read_def api_read_def no_writes_def
      split: option.splits)

lemma get_template_loaded:
  "template_available s \<Longrightarrow> lb_template (snd (get_template s)) \<noteq> None"
  by (auto simp: get_template_def template_available_def service_template_read_def api_read_def
      split: option.splits)

lemma get_template_not_loaded:
  "\<not> template_available s \<Longrightarrow> lb_template (snd (get_template s)) = None"
  by (auto simp: get_template_def template_available_def service_template_read_def api_read_def
      split: option.splits)

lemma update_loop_same:
  assumes "right_virtual_network current = right_virtual_network nprops"
    and "right_ip_address current = right_ip_address nprops"
    and "left_virtual_network current = left_virtual_network nprops"
  shows "update_loop current nprops fields_list = Inr False"
  using assms by (simp add: fields_list_def getattr_prop_def)

lemma update_loop_fields:
  "update_loop current nprops fields_list
     = Inr (right_virtual_network current \<noteq> right_virtual_network nprops
          \<or> right_ip_address current \<noteq> right_ip_address nprops
          \<or> left_virtual_network current \<noteq> left_virtual_network nprops)"
  by (simp add: fields_list_def getattr_prop_def)

lemma resolve_found_same:
  assumes "service_instances (remote s) fq = Some si"
    and "service_instance_properties si = Some current"
    and "update_loop current nprops fields_list = Inr False"
  shows "resolve_instance fq nprops s
     = (Inr (si\<lparr>service_instance_properties := Some nprops\<rparr>), record_call (ServiceInstanceRead fq) s)"
  using assms
  by (simp add: resolve_instance_def service_instance_read_def api_read_Some
      service_instance_update_props_def)

lemma resolve_found_differs_calls:
  assumes "service_instances (remote s) fq = Some si"
    and "service_instance_properties si = Some current"
    and "update_loop current nprops fields_list = Inr True"
  shows "\<exists>cs. calls (snd (resolve_instance fq nprops s)) = calls s @ cs
     \<and> filter is_si_update cs = [ServiceInstanceUpdate (si\<lparr>service_instance_properties := Some nprops\<rparr>)]"
  using assms
  by (auto simp: resolve_instance_def service_instance_read_def api_read_Some
      service_instance_update_props_def service_instance_update_def api_write_def
      create_instance_def service_instance_create_def
      split: sum.splits prod.splits option.splits)

lemma associate_pool_calls:
  "\<exists>cs. calls (snd (associate_pool pool si_obj s)) = calls s @ cs \<and> filter is_si_update cs = []"
  by (auto simp: associate_pool_def loadbalancer_pool_update_def api_write_def
      split: sum.splits prod.splits option.splits list.splits)

lemma interface_unresolved_desired:
  assumes "interface_unresolved st vip"
  shows "desired_properties st attrs vip = Inr None"
  using assms
  unfolding interface_unresolved_def address_unresolved_def desired_properties_def
  apply (cases "virtual_machine_interface_refs vip"; simp)
  apply (rename_tac rs)
  apply (case_tac rs; simp)
  apply (rename_tac r rest)
  apply (case_tac "virtual_machine_interfaces st (ref_uuid r)"; simp)
  apply (rename_tac vmi)
  apply (case_tac "virtual_network_refs vmi"; simp)
  apply (rename_tac vns)
  apply (case_tac vns; simp)
  apply (case_tac "instance_ip_back_refs vmi"; simp)
  apply (rename_tac ips)
  apply (case_tac ips; simp)
  apply (rename_tac i irest)
  apply (case_tac "instance_ips st (ref_uuid i)"; simp)
  done

lemma link_pool_frame: "store_frame (link_pool u r st) = store_frame st"
  by (simp add: link_pool_def store_frame_def calc_view_def split: option.splits)

lemma unlink_pool_frame: "store_frame (unlink_pool u r st) = store_frame st"
  by (simp add: unlink_pool_def store_frame_def calc_view_def split: option.splits)

lemma link_pool_core:
  "map_option si_core (service_instances (link_pool u r st) fq)
     = map_option si_core (service_instances st fq)"
  by (simp add: link_pool_def si_core_def split: option.splits)

lemma unlink_pool_core:
  "map_option si_core (service_instances (unlink_pool u r st) fq)
     = map_option si_core (service_instances st fq)"
  by (simp add: unlink_pool_def si_core_def split: option.splits)

lemma fold_link_pool_frame: "store_frame (fold (link_pool u) rs st) = store_frame st"
  by (induction rs arbitrary: st) (simp_all add: link_pool_frame)

lemma fold_unlink_pool_frame: "store_frame (fold (unlink_pool u) rs st) = store_frame st"
  by (induction rs arbitrary: st) (simp_all add: unlink_pool_frame)

lemma fold_link_pool_core:
  "map_option si_core (service_instances (fold (link_pool u) rs st) fq)
     = map_option si_core (service_instances st fq)"
  by (induction rs arbitrary: st) (simp_all add: link_pool_core)

lemma fold_unlink_pool_core:
  "map_option si_core (service_instances (fold (unlink_pool u) rs st) fq)
     = map_option si_core (service_instances st fq)"
  by (induction rs arbitrary: st) (simp_all add: unlink_pool_core)

lemma store_update_pool_absent:
  "loadbalancer_pools st (pool_uuid p) = None \<Longrightarrow> store_update_pool p st = Inl NoIdError"
  by (simp add: store_update_pool_def)

lemma store_update_pool_present:
  assumes "loadbalancer_pools st (pool_uuid p) = Some stored"
  shows "\<exists>st'. store_update_pool p st = Inr ((), st')
     \<and> calc_view st' = calc_view st \<and> virtual_ips st' = virtual_ips st
     \<and> service_templates st' = service_templates st
     \<and> loadbalancer_pools st'
         = (loadbalancer_pools st)(pool_uuid p \<mapsto> stored\<lparr>service_instance_refs := service_instance_refs p\<rparr>)
     \<and> (\<forall>fq. map_option si_core (service_instances st' fq) = map_option si_core (service_instances st fq))"
proof -
  let ?st1 = "fold (unlink_pool (pool_uuid p)) (refs_list (service_instance_refs stored)) st"
  let ?st2 = "fold (link_pool (pool_uuid p)) (refs_list (service_instance_refs p)) ?st1"
  have f: "store_frame ?st2 = store_frame st"
    by (simp add: fold_link_pool_frame fold_unlink_pool_frame)
  have c: "\<And>fq. map_option si_core (service_instances ?st2 fq) = map_option si_core (service_instances st fq)"
    by (simp add: fold_link_pool_core fold_unlink_pool_core)
  show ?thesis
    using assms f c
    by (simp add: store_update_pool_def Let_def store_frame_def calc_view_def)
qed

lemma store_update_pool_core:
  "store_update_pool p st = Inr ((), st') \<Longrightarrow>
   map_option si_core (service_instances st' fq) = map_option si_core (service_instances st fq)"
  using store_update_pool_present [of st p] store_update_pool_absent [of st p]
  by (cases "loadbalancer_pools st (pool_uuid p)") auto

lemma desired_properties_view:
  "calc_view st = calc_view st' \<Longrightarrow> desired_properties st attrs vip = desired_properties st' attrs vip"
  by (simp add: calc_view_def desired_properties_def cong: option.case_cong list.case_cong if_cong)

lemma si_update_is_write: "is_si_update c \<Longrightarrow> is_write c"
  by (cases c) simp_all

lemma pool_update_is_write: "is_pool_update c \<Longrightarrow> is_write c"
  by (cases c) simp_all

lemma filter_write_empty:
  assumes "filter is_write cs = []"
  shows "filter is_si_update cs = []" "filter is_pool_update cs = []"
  using assms si_update_is_write pool_update_is_write by (auto simp: filter_empty_conv)

lemma differing_fields_one:
  "differing_fields current nprops = 1 \<Longrightarrow> update_loop current nprops fields_list = Inr True"
  by (auto simp: differing_fields_def update_loop_fields fields_list_def getattr_prop_def
      split: if_splits)

lemma template_available_cong:
  "remote t = remote s \<Longrightarrow> lb_template t = lb_template s \<Longrightarrow> template_available t = template_available s"
  by (simp add: template_available_def)

lemma update_with_configuration:
  assumes pool: "loadbalancer_pools (remote s) pool_id = Some pool"
    and vip: "virtual_ips (remote s) vip_id = Some vip"
    and some: "fst (calculate_instance_properties pool vip s) = Inr (Some props)"
  obtains s3 where
    "update_loadbalancer_instance pool_id vip_id s
       = (case get_template s3 of
            (Inl ex, s4) \<Rightarrow> (Inl ex, s4)
          | (Inr _, s4) \<Rightarrow>
              (case resolve_instance (instance_fq_name pool pool_id) props s4 of
                 (Inl ex, s5) \<Rightarrow> (Inl ex, s5)
               | (Inr si_obj, s5) \<Rightarrow> associate_pool pool si_obj s5))"
    "only_reads s s3"
proof -
  let ?s2 = "record_call (VirtualIpRead vip_id) (record_call (LoadbalancerPoolRead pool_id) s)"
  obtain r3 s3 where c: "calculate_instance_properties pool vip ?s2 = (r3, s3)" by fastforce
  have "r3 = Inr (Some props)"
    using some c calculate_instance_properties_fst [of pool vip ?s2]
      calculate_instance_properties_fst [of pool vip s] by simp
  then have u: "update_loadbalancer_instance pool_id vip_id s
       = (case get_template s3 of
            (Inl ex, s4) \<Rightarrow> (Inl ex, s4)
          | (Inr _, s4) \<Rightarrow>
              (case resolve_instance (instance_fq_name pool pool_id) props s4 of
                 (Inl ex, s5) \<Rightarrow> (Inl ex, s5)
               | (Inr si_obj, s5) \<Rightarrow> associate_pool pool si_obj s5))"
    using update_after_reads [OF pool vip] c by simp
  have "only_reads s ?s2" by (simp add: only_reads_def)
  then have "only_reads s s3"
    using calculate_instance_properties_only_reads [OF c] only_reads_trans by blast
  with u show thesis using that by blast
qed

lemma update_deploy:
  assumes pool: "loadbalancer_pools (remote s) pool_id = Some pool"
    and vip: "virtual_ips (remote s) vip_id = Some vip"
    and some: "fst (calculate_instance_properties pool vip s) = Inr (Some props)"
    and tmpl: "template_available s"
  obtains s4 where
    "update_loadbalancer_instance pool_id vip_id s
       = (case resolve_instance (instance_fq_name pool pool_id) props s4 of
            (Inl ex, s5) \<Rightarrow> (Inl ex, s5)
          | (Inr si_obj, s5) \<Rightarrow> associate_pool pool si_obj s5)"
    "no_writes s s4" "lb_template s4 \<noteq> None"
proof -
  obtain s3 where u: "update_loadbalancer_instance pool_id vip_id s
       = (case get_template s3 of
            (Inl ex, s4) \<Rightarrow> (Inl ex, s4)
          | (Inr _, s4) \<Rightarrow>
              (case resolve_instance (instance_fq_name pool pool_id) props s4 of
                 (Inl ex, s5) \<Rightarrow> (Inl ex, s5)
               | (Inr si_obj, s5) \<Rightarrow> associate_pool pool si_obj s5))"
    and r: "only_reads s s3"
    using update_with_configuration [OF pool vip some] by blast
  have av: "template_available s3"
    using r tmpl template_available_cong [of s3 s] by (simp add: only_reads_def)
  obtain r4 s4 where g: "get_template s3 = (r4, s4)" by fastforce
  have r4: "r4 = Inr ()" using get_template_fst [of s3] g av by simp
  have nw: "no_writes s s4"
    using get_template_no_writes [of s3] g only_reads_no_writes [OF r] no_writes_trans by fastforce
  have ld: "lb_template s4 \<noteq> None" using get_template_loaded [OF av] g by simp
  have "update_loadbalancer_instance pool_id vip_id s
       = (case resolve_instance (instance_fq_name pool pool_id) props s4 of
            (Inl ex, s5) \<Rightarrow> (Inl ex, s5)
          | (Inr si_obj, s5) \<Rightarrow> associate_pool pool si_obj s5)"
    using u g r4 by simp
  then show thesis using that nw ld by blast
qed

lemma associate_pool_if:
  "associate_pool pool si_obj s
     = (if reference_differs (service_instance_refs pool) (si_uuid si_obj)
        then loadbalancer_pool_update (set_service_instance pool si_obj) s
        else (case service_instance_refs pool of
                Some [] \<Rightarrow> (Inl IndexError, s) | _ \<Rightarrow> (Inr (), s)))"
  by (simp add: associate_pool_def reference_differs_def split: option.splits list.splits)

lemma loadbalancer_pool_update_effect:
  "calls (snd (loadbalancer_pool_update p s)) = calls s @ [LoadbalancerPoolUpdate p]
   \<and> lb_template (snd (loadbalancer_pool_update p s)) = lb_template s
   \<and> remote (snd (loadbalancer_pool_update p s))
       = (case store_update_pool p (remote s) of Inl _ \<Rightarrow> remote s | Inr (_, st) \<Rightarrow> st)"
  by (simp add: loadbalancer_pool_update_def api_write_def split: sum.splits prod.splits)

lemma store_update_pool_core_total:
  "map_option si_core
     (service_instances (case store_update_pool p st of Inl _ \<Rightarrow> st | Inr (_, st') \<Rightarrow> st') fq)
   = map_option si_core (service_instances st fq)"
  using store_update_pool_core [where p = p and st = st and fq = fq]
  by (auto split: sum.splits)

lemma associate_pool_effect:
  assumes "service_instances (remote s) fq = Some x"
  shows "\<exists>cs x'. calls (snd (associate_pool pool si_obj s)) = calls s @ cs
     \<and> (filter is_pool_update cs \<noteq> []) = reference_differs (service_instance_refs pool) (si_uuid si_obj)
     \<and> filter is_si_update cs = []
     \<and> service_instances (remote (snd (associate_pool pool si_obj s))) fq = Some x'
     \<and> si_core x' = si_core x"
proof (cases "reference_differs (service_instance_refs pool) (si_uuid si_obj)")
  case True
  let ?p = "set_service_instance pool si_obj"
  have a: "associate_pool pool si_obj s = loadbalancer_pool_update ?p s"
    using True by (simp add: associate_pool_if)
  have "map_option si_core (service_instances (remote (snd (loadbalancer_pool_update ?p s))) fq)
      = Some (si_core x)"
    using store_update_pool_core_total [where p = ?p and st = "remote s" and fq = fq] assms
    by (simp add: loadbalancer_pool_update_effect)
  then obtain x' where "service_instances (remote (snd (loadbalancer_pool_update ?p s))) fq = Some x'"
    "si_core x' = si_core x" by auto
  then show ?thesis
    using True by (simp add: a loadbalancer_pool_update_effect)
next
  case False
  then have "snd (associate_pool pool si_obj s) = s"
    by (simp add: associate_pool_if split: option.splits list.splits)
  then show ?thesis using False assms by simp
qed

lemma create_instance_fresh:
  assumes "lb_template s = Some tmpl" and "service_instances (remote s) fq = None"
  shows "\<exists>si_obj s5 c. create_instance fq props s = (Inr si_obj, s5) \<and> calls s5 = calls s @ [c]
     \<and> \<not> is_pool_update c \<and> service_instances (remote s5) fq = Some si_obj
     \<and> lb_template s5 = lb_template s"
  using assms
  by (simp add: create_instance_def service_instance_create_def api_write_def
      store_create_instance_def set_service_template_def Let_def)

lemma resolve_succeeds:
  assumes tm: "lb_template s \<noteq> None" and ok: "instance_resolvable (remote s) fq"
  shows "\<exists>si_obj s5 cs x. resolve_instance fq props s = (Inr si_obj, s5) \<and> calls s5 = calls s @ cs
     \<and> filter is_pool_update cs = [] \<and> service_instances (remote s5) fq = Some x
     \<and> si_uuid x = si_uuid si_obj"
proof (cases "service_instances (remote s) fq")
  case None
  let ?s1 = "record_call (ServiceInstanceRead fq) s"
  obtain tmpl where t: "lb_template ?s1 = Some tmpl" using tm by auto
  have n: "service_instances (remote ?s1) fq = None" using None by simp
  have r: "resolve_instance fq props s = create_instance fq props ?s1"
    using None by (simp add: resolve_instance_def service_instance_read_def api_read_None)
  obtain si_obj s5 c where "create_instance fq props ?s1 = (Inr si_obj, s5)"
    "calls s5 = calls ?s1 @ [c]" "\<not> is_pool_update c" "service_instances (remote s5) fq = Some si_obj"
    using create_instance_fresh [OF t n, of props] by blast
  then show ?thesis using r by auto
next
  case (Some si)
  then obtain current where cur: "service_instance_properties si = Some current"
    and nm: "si_fq_name si = fq"
    using ok by (auto simp: instance_resolvable_def)
  let ?si = "si\<lparr>service_instance_properties := Some props\<rparr>"
  show ?thesis
  proof (cases "update_loop current props fields_list = Inr False")
    case True
    show ?thesis
      using resolve_found_same [OF Some cur True] Some by simp
  next
    case False
    then have tr: "update_loop current props fields_list = Inr True"
      by (simp add: update_loop_fields)
    have "resolve_instance fq props s
        = (Inr ?si, (record_call (ServiceInstanceUpdate ?si) (record_call (ServiceInstanceRead fq) s))
             \<lparr>remote := (remote s)\<lparr>service_instances := (service_instances (remote s))(fq \<mapsto> ?si)\<rparr>\<rparr>)"
      using Some cur nm tr
      by (simp add: resolve_instance_def service_instance_read_def api_read_Some
          service_instance_update_props_def service_instance_update_def api_write_def
          store_update_instance_def)
    then show ?thesis by simp
  qed
qed

lemma reconcile_in_sync:
  assumes pool: "loadbalancer_pools (remote s) pool_id = Some pool"
    and vip: "virtual_ips (remote s) vip_id = Some vip"
    and calc: "fst (calculate_instance_properties pool vip s) = Inr (Some nprops)"
    and si: "service_instances (remote s) (instance_fq_name pool pool_id) = Some si"
    and cur: "service_instance_properties si = Some current"
    and same: "update_loop current nprops fields_list = Inr False"
  shows "\<exists>cs. calls (snd (update_loadbalancer_instance pool_id vip_id s)) = calls s @ cs
     \<and> filter is_si_update cs = []
     \<and> (if template_available s \<and> reference_differs (service_instance_refs pool) (si_uuid si)
         then filter is_write cs
                = [LoadbalancerPoolUpdate
                     (set_service_instance pool (si\<lparr>service_instance_properties := Some nprops\<rparr>))]
              \<and> remote (snd (update_loadbalancer_instance pool_id vip_id s))
                  = (case store_update_pool
                            (set_service_instance pool (si\<lparr>service_instance_properties := Some nprops\<rparr>))
                            (remote s) of
                       Inl _ \<Rightarrow> remote s | Inr (_, st) \<Rightarrow> st)
         else filter is_write cs = []
              \<and> remote (snd (update_loadbalancer_instance pool_id vip_id s)) = remote s)
     \<and> template_available (snd (update_loadbalancer_instance pool_id vip_id s)) = template_available s"
proof (cases "template_available s")
  case False
  let ?u = "update_loadbalancer_instance pool_id vip_id s"
  obtain s3 where u: "?u = (case get_template s3 of
            (Inl ex, s4) \<Rightarrow> (Inl ex, s4)
          | (Inr _, s4) \<Rightarrow>
              (case resolve_instance (instance_fq_name pool pool_id) nprops s4 of
                 (Inl ex, s5) \<Rightarrow> (Inl ex, s5)
               | (Inr si_obj, s5) \<Rightarrow> associate_pool pool si_obj s5))"
    and r: "only_reads s s3"
    using update_with_configuration [OF pool vip calc] by blast
  have na: "\<not> template_available s3"
    using r False template_available_cong [of s3 s] by (simp add: only_reads_def)
  obtain r4 s4 where g: "get_template s3 = (r4, s4)" by fastforce
  have "r4 = Inl (NameError ''pool_id'')" using get_template_fst [of s3] g na by simp
  then have su: "snd ?u = s4" using u g by simp
  have nw: "no_writes s s4"
    using get_template_no_writes [of s3] g only_reads_no_writes [OF r] no_writes_trans by fastforce
  have nl: "lb_template s4 = None" using get_template_not_loaded [OF na] g by simp
  obtain cs where rem: "remote s4 = remote s" and c: "calls s4 = calls s @ cs"
    and w: "filter is_write cs = []"
    using nw by (auto simp: no_writes_def)
  have "template_available s4 = template_available s"
    using False nl rem by (simp add: template_available_def)
  then show ?thesis
    using False su rem c w filter_write_empty(1) [OF w] by simp
next
  case True
  let ?fq = "instance_fq_name pool pool_id"
  let ?u = "update_loadbalancer_instance pool_id vip_id s"
  let ?si = "si\<lparr>service_instance_properties := Some nprops\<rparr>"
  let ?p = "set_service_instance pool ?si"
  obtain s4 where u: "?u = (case resolve_instance ?fq nprops s4 of
            (Inl ex, s5) \<Rightarrow> (Inl ex, s5)
          | (Inr si_obj, s5) \<Rightarrow> associate_pool pool si_obj s5)"
    and nw: "no_writes s s4" and ld: "lb_template s4 \<noteq> None"
    using update_deploy [OF pool vip calc True] by blast
  obtain cs4 where rem: "remote s4 = remote s" and c4: "calls s4 = calls s @ cs4"
    and w4: "filter is_write cs4 = []"
    using nw by (auto simp: no_writes_def)
  let ?s5 = "record_call (ServiceInstanceRead ?fq) s4"
  have si4: "service_instances (remote s4) ?fq = Some si" using si rem by simp
  have ua: "?u = associate_pool pool ?si ?s5"
    using u resolve_found_same [OF si4 cur same] by simp
  show ?thesis
  proof (cases "reference_differs (service_instance_refs pool) (si_uuid si)")
    case d: True
    have up: "?u = loadbalancer_pool_update ?p ?s5"
      using ua d by (simp add: associate_pool_if)
    have c: "calls (snd ?u) = calls s @ (cs4 @ [ServiceInstanceRead ?fq, LoadbalancerPoolUpdate ?p])"
      using c4 by (simp add: up loadbalancer_pool_update_effect)
    have t: "template_available (snd ?u)"
      using ld by (simp add: up loadbalancer_pool_update_effect template_available_def)
    show ?thesis
      using True d c t w4 filter_write_empty(1) [OF w4] rem
      by (simp add: up loadbalancer_pool_update_effect split: sum.splits)
  next
    case d: False
    have su: "snd ?u = ?s5"
      using ua d by (simp add: associate_pool_if split: option.splits list.splits)
    have c: "calls (snd ?u) = calls s @ (cs4 @ [ServiceInstanceRead ?fq])"
      using c4 by (simp add: su)
    have t: "template_available (snd ?u)"
      using ld by (simp add: su template_available_def)
    show ?thesis
      using True d c t w4 filter_write_empty(1) [OF w4] rem
      by (simp add: su)
  qed
qed


lemma try_delete_state:
  "snd (try_service_instance_delete fq s)
     = (case service_instances (remote s) fq of
          None \<Rightarrow> record_call (ServiceInstanceDelete fq) s
        | Some si \<Rightarrow>
            if si_pool_back_refs si \<noteq> []
            then LOG_error RefsExistError (record_call (ServiceInstanceDelete fq) s)
            else (record_call (ServiceInstanceDelete fq) s)
                   \<lparr>remote := (remote s)\<lparr>service_instances := (service_instances (remote s))(fq := None)\<rparr>\<rparr>)"
  by (simp add: try_service_instance_delete_def service_instance_delete_def api_write_def
      store_delete_instance_def split: option.splits)

lemma reconcile_template_missing:
  assumes pool: "loadbalancer_pools (remote s) pool_id = Some pool"
    and vip: "virtual_ips (remote s) vip_id = Some vip"
    and calc: "fst (calculate_instance_properties pool vip s) = Inr (Some nprops)"
    and na: "\<not> template_available s"
  shows "\<exists>cs. calls (snd (update_loadbalancer_instance pool_id vip_id s)) = calls s @ cs
     \<and> filter is_write cs = []
     \<and> remote (snd (update_loadbalancer_instance pool_id vip_id s)) = remote s
     \<and> \<not> template_available (snd (update_loadbalancer_instance pool_id vip_id s))"
proof -
  let ?u = "update_loadbalancer_instance pool_id vip_id s"
  obtain s3 where u: "?u = (case get_template s3 of
            (Inl ex, s4) \<Rightarrow> (Inl ex, s4)
          | (Inr _, s4) \<Rightarrow>
              (case resolve_instance (instance_fq_name pool pool_id) nprops s4 of
                 (Inl ex, s5) \<Rightarrow> (Inl ex, s5)
               | (Inr si_obj, s5) \<Rightarrow> associate_pool pool si_obj s5))"
    and r: "only_reads s s3"
    using update_with_configuration [OF pool vip calc] by blast
  have na3: "\<not> template_available s3"
    using r na template_available_cong [of s3 s] by (simp add: only_reads_def)
  obtain r4 s4 where g: "get_template s3 = (r4, s4)" by fastforce
  have "r4 = Inl (NameError ''pool_id'')" using get_template_fst [of s3] g na3 by simp
  then have su: "snd ?u = s4" using u g by simp
  have nw: "no_writes s s4"
    using get_template_no_writes [of s3] g only_reads_no_writes [OF r] no_writes_trans by fastforce
  have nl: "lb_template s4 = None" using get_template_not_loaded [OF na3] g by simp
  obtain cs where rem: "remote s4 = remote s" and c: "calls s4 = calls s @ cs"
    and w: "filter is_write cs = []"
    using nw by (auto simp: no_writes_def)
  have "\<not> template_available s4"
    using na nl rem by (simp add: template_available_def)
  then show ?thesis using su rem c w by simp
qed

lemma create_instance_result:
  assumes "lb_template s = Some tmpl" and "service_instances (remote s) fq = None"
  shows "\<exists>si_obj s5 c. create_instance fq props s = (Inr si_obj, s5) \<and> calls s5 = calls s @ [c]
     \<and> \<not> is_pool_update c \<and> service_instances (remote s5) fq = Some si_obj
     \<and> lb_template s5 = lb_template s \<and> store_frame (remote s5) = store_frame (remote s)
     \<and> service_instance_properties si_obj = Some props \<and> si_uuid si_obj \<noteq> None"
  using assms
  by (simp add: create_instance_def service_instance_create_def api_write_def
      store_create_instance_def set_service_template_def Let_def store_frame_def calc_view_def)

lemma update_loop_False_eq:
  "update_loop current props fields_list = Inr False \<Longrightarrow> current = props"
  by (simp add: update_loop_fields)

lemma resolve_post:
  assumes tm: "lb_template s \<noteq> None" and ok: "instance_resolvable (remote s) fq"
    and idn: "instance_identified (remote s) fq"
  shows "\<exists>si_obj s5 cs x. resolve_instance fq props s = (Inr si_obj, s5) \<and> calls s5 = calls s @ cs
     \<and> length (filter is_write cs) \<le> 1 \<and> filter is_pool_update cs = []
     \<and> store_frame (remote s5) = store_frame (remote s) \<and> lb_template s5 = lb_template s
     \<and> service_instances (remote s5) fq = Some x
     \<and> service_instance_properties x = Some props
     \<and> si_uuid x = si_uuid si_obj \<and> si_uuid x \<noteq> None"
proof (cases "service_instances (remote s) fq")
  case None
  let ?s1 = "record_call (ServiceInstanceRead fq) s"
  obtain tmpl where t: "lb_template ?s1 = Some tmpl" using tm by auto
  have n: "service_instances (remote ?s1) fq = None" using None by simp
  have r: "resolve_instance fq props s = create_instance fq props ?s1"
    using None by (simp add: resolve_instance_def service_instance_read_def api_read_None)
  obtain si_obj s5 c where cr: "create_instance fq props ?s1 = (Inr si_obj, s5)"
    "calls s5 = calls ?s1 @ [c]" "\<not> is_pool_update c" "service_instances (remote s5) fq = Some si_obj"
    "lb_template s5 = lb_template ?s1" "store_frame (remote s5) = store_frame (remote ?s1)"
    "service_instance_properties si_obj = Some props" "si_uuid si_obj \<noteq> None"
    using create_instance_result [OF t n, of props] by blast
  have "calls s5 = calls s @ [ServiceInstanceRead fq, c]" using cr(2) by simp
  moreover have "length (filter is_write [ServiceInstanceRead fq, c]) \<le> 1" by simp
  moreover have "filter is_pool_update [ServiceInstanceRead fq, c] = []" using cr(3) by simp
  ultimately show ?thesis using r cr by auto
next
  case (Some si)
  then obtain current where cur: "service_instance_properties si = Some current"
    and nm: "si_fq_name si = fq"
    using ok by (auto simp: instance_resolvable_def)
  have uu: "si_uuid si \<noteq> None" using idn Some by (simp add: instance_identified_def)
  let ?si = "si\<lparr>service_instance_properties := Some props\<rparr>"
  show ?thesis
  proof (cases "update_loop current props fields_list = Inr False")
    case True
    have "current = props" using True by (rule update_loop_False_eq)
    then show ?thesis
      using resolve_found_same [OF Some cur True] Some cur uu by simp
  next
    case False
    then have tr: "update_loop current props fields_list = Inr True"
      by (simp add: update_loop_fields)
    have "resolve_instance fq props s
        = (Inr ?si, (record_call (ServiceInstanceUpdate ?si) (record_call (ServiceInstanceRead fq) s))
             \<lparr>remote := (remote s)\<lparr>service_instances := (service_instances (remote s))(fq \<mapsto> ?si)\<rparr>\<rparr>)"
      using Some cur nm tr
      by (simp add: resolve_instance_def service_instance_read_def api_read_Some
          service_instance_update_props_def service_instance_update_def api_write_def
          store_update_instance_def)
    then show ?thesis using uu by (simp add: store_frame_def calc_view_def)
  qed
qed

lemma reconcile_configured:
  assumes pool: "loadbalancer_pools (remote s) pool_id = Some pool"
    and key: "pool_uuid pool = pool_id"
    and vip: "virtual_ips (remote s) vip_id = Some vip"
    and calc: "fst (calculate_instance_properties pool vip s) = Inr (Some nprops)"
    and res: "instance_resolvable (remote s) (instance_fq_name pool pool_id)"
    and idn: "instance_identified (remote s) (instance_fq_name pool pool_id)"
    and av: "template_available s"
  shows "\<exists>cs pool1 x. calls (snd (update_loadbalancer_instance pool_id vip_id s)) = calls s @ cs
     \<and> length (filter is_write cs) \<le> 2
     \<and> template_available (snd (update_loadbalancer_instance pool_id vip_id s))
     \<and> loadbalancer_pools (remote (snd (update_loadbalancer_instance pool_id vip_id s))) pool_id
         = Some pool1
     \<and> pool_fq_name pool1 = pool_fq_name pool
     \<and> loadbalancer_pool_properties pool1 = loadbalancer_pool_properties pool
     \<and> virtual_ips (remote (snd (update_loadbalancer_instance pool_id vip_id s))) = virtual_ips (remote s)
     \<and> calc_view (remote (snd (update_loadbalancer_instance pool_id vip_id s))) = calc_view (remote s)
     \<and> service_instances (remote (snd (update_loadbalancer_instance pool_id vip_id s)))
          (instance_fq_name pool pool_id) = Some x
     \<and> service_instance_properties x = Some nprops
     \<and> \<not> reference_differs (service_instance_refs pool1) (si_uuid x)"
proof -
  let ?fq = "instance_fq_name pool pool_id"
  let ?u = "update_loadbalancer_instance pool_id vip_id s"
  obtain s4 where u: "?u = (case resolve_instance ?fq nprops s4 of
            (Inl ex, s5) \<Rightarrow> (Inl ex, s5)
          | (Inr si_obj, s5) \<Rightarrow> associate_pool pool si_obj s5)"
    and nw: "no_writes s s4" and ld: "lb_template s4 \<noteq> None"
    using update_deploy [OF pool vip calc av] by blast
  obtain cs4 where rem: "remote s4 = remote s" and c4: "calls s4 = calls s @ cs4"
    and w4: "filter is_write cs4 = []"
    using nw by (auto simp: no_writes_def)
  have res4: "instance_resolvable (remote s4) ?fq" using res rem by simp
  have idn4: "instance_identified (remote s4) ?fq" using idn rem by simp
  obtain si_obj s5 cs5 x where r: "resolve_instance ?fq nprops s4 = (Inr si_obj, s5)"
    and c5: "calls s5 = calls s4 @ cs5" and w5: "length (filter is_write cs5) \<le> 1"
    and fr: "store_frame (remote s5) = store_frame (remote s4)"
    and t5: "lb_template s5 = lb_template s4"
    and x: "service_instances (remote s5) ?fq = Some x"
    and px: "service_instance_properties x = Some nprops"
    and ux: "si_uuid x = si_uuid si_obj" and un: "si_uuid x \<noteq> None"
    using resolve_post [OF ld res4 idn4, of nprops] by blast
  have ua: "?u = associate_pool pool si_obj s5" using u r by simp
  have view5: "calc_view (remote s5) = calc_view (remote s)"
    and vips5: "virtual_ips (remote s5) = virtual_ips (remote s)"
    and pools5: "loadbalancer_pools (remote s5) = loadbalancer_pools (remote s)"
    using fr rem by (simp_all add: store_frame_def)
  show ?thesis
  proof (cases "reference_differs (service_instance_refs pool) (si_uuid si_obj)")
    case False
    have su: "snd ?u = s5"
      using ua False by (simp add: associate_pool_if split: option.splits list.splits)
    have c: "calls (snd ?u) = calls s @ (cs4 @ cs5)" using c4 c5 su by simp
    have w: "length (filter is_write (cs4 @ cs5)) \<le> 2" using w4 w5 by simp
    have t: "template_available (snd ?u)"
      using ld t5 su by (simp add: template_available_def)
    have nd: "\<not> reference_differs (service_instance_refs pool) (si_uuid x)"
      using False ux by simp
    show ?thesis
      using c w t pool pools5 vips5 view5 x px nd su by auto
  next
    case True
    let ?p = "set_service_instance pool si_obj"
    have up: "?u = loadbalancer_pool_update ?p s5"
      using ua True by (simp add: associate_pool_if)
    have pk: "pool_uuid ?p = pool_id" using key by (simp add: set_service_instance_def)
    have stored: "loadbalancer_pools (remote s5) (pool_uuid ?p) = Some pool"
      using pool pk pools5 by simp
    obtain st' where sp: "store_update_pool ?p (remote s5) = Inr ((), st')"
      and view: "calc_view st' = calc_view (remote s5)"
      and vips: "virtual_ips st' = virtual_ips (remote s5)"
      and pools: "loadbalancer_pools st'
         = (loadbalancer_pools (remote s5))(pool_uuid ?p \<mapsto>
              pool\<lparr>service_instance_refs := service_instance_refs ?p\<rparr>)"
      and core: "\<forall>fq. map_option si_core (service_instances st' fq)
                       = map_option si_core (service_instances (remote s5) fq)"
      using store_update_pool_present [OF stored] by blast
    have rem1: "remote (snd ?u) = st'"
      using sp by (simp add: up loadbalancer_pool_update_effect)
    have pp: "pool\<lparr>service_instance_refs := service_instance_refs ?p\<rparr> = ?p"
      by (simp add: set_service_instance_def)
    have pool1: "loadbalancer_pools (remote (snd ?u)) pool_id = Some ?p"
      using pools pk pp rem1 by simp
    have "map_option si_core (service_instances st' ?fq) = Some (si_core x)"
      using core x by simp
    then obtain x' where x': "service_instances st' ?fq = Some x'" and cx: "si_core x' = si_core x"
      by auto
    have px': "service_instance_properties x' = Some nprops"
      using cx px by (simp add: si_core_def)
    have ux': "si_uuid x' = si_uuid si_obj" using cx ux by (simp add: si_core_def)
    have nd: "\<not> reference_differs (service_instance_refs ?p) (si_uuid x')"
      using un ux ux' by (auto simp: reference_differs_def set_service_instance_def uuid_of_def)
    have c: "calls (snd ?u) = calls s @ (cs4 @ cs5 @ [LoadbalancerPoolUpdate ?p])"
      using c4 c5 by (simp add: up loadbalancer_pool_update_effect)
    have w: "length (filter is_write (cs4 @ cs5 @ [LoadbalancerPoolUpdate ?p])) \<le> 2"
      using w4 w5 by simp
    have t: "template_available (snd ?u)"
      using ld t5 by (simp add: up loadbalancer_pool_update_effect template_available_def)
    have f1: "pool_fq_name ?p = pool_fq_name pool"
      and f2: "loadbalancer_pool_properties ?p = loadbalancer_pool_properties pool"
      by (simp_all add: set_service_instance_def)
    have v1: "virtual_ips (remote (snd ?u)) = virtual_ips (remote s)"
      using vips vips5 rem1 by simp
    have v2: "calc_view (remote (snd ?u)) = calc_view (remote s)"
      using view view5 rem1 by simp
    have x1: "service_instances (remote (snd ?u)) ?fq = Some x'" using x' rem1 by simp
    show ?thesis
      using c w t pool1 f1 f2 v1 v2 x1 px' nd by blast
  qed
qed

lemmas demo_defs = demo_scope_def net_A_ref_def demo_vmi_def demo_pool_def demo_vip_def
  demo_template_def demo_store_def initial_state_def demo_props_def two_network_pool_def
  two_network_store_def no_template_store_def unbound_vip_def unbound_store_def
  demo_instance_def deployed_store_def associated_pool_def associated_store_def
  drifted_props_def drifted_instance_def drifted_store_def
  unbound_deployed_store_def unbound_associated_store_def
  LOADBALANCER_SERVICE_TEMPLATE_def

lemmas driver_defs = update_loadbalancer_instance_def calculate_instance_properties_def
  get_virtual_ip_interface_def get_interface_address_def left_network_step_def
  get_subnet_network_id_def get_template_def resolve_instance_def create_instance_def
  associate_pool_def try_service_instance_delete_def clear_loadbalancer_instance_def
  service_instance_update_props_def instance_fq_name_def ServiceInstanceType_def
  set_service_instance_def set_service_template_def uuid_of_def fields_list_def
  getattr_prop_def create_vip_def create_pool_def truthy_def field_value_def

lemmas api_defs = api_read_def api_write_def project_read_def virtual_network_read_def
  virtual_machine_interface_read_def instance_ip_read_def loadbalancer_pool_read_def
  virtual_ip_read_def service_template_read_def service_instance_read_def
  service_instance_create_def service_instance_update_def service_instance_delete_def
  loadbalancer_pool_update_def store_create_instance_def store_update_instance_def
  store_delete_instance_def store_update_pool_def record_call_def LOG_error_def
  new_uuid_def refs_list_def link_pool_def unlink_pool_def calls_since_def Let_def

section \<open>The claims\<close>

text \<open>
  C1: when the property calculation succeeds and the network of the pool's subnet differs
  from the network of the VIP's interface, \<^verbatim>\<open>left_virtual_network\<close> is the colon-joined
  qualified name of the backend network. In the two-network scenario of the specification
  the backend network \<^verbatim>\<open>net-B\<close> is resolved, and the calculation then raises
  \<^verbatim>\<open>AttributeError\<close> instead of returning properties with \<^verbatim>\<open>left_virtual_network\<close> set.
\<close>

theorem two_network_scenario_raises:
  "subnet_network two_network_store ''subnet-B'' = Some ''net-B-id''
   \<and> virtual_networks two_network_store ''net-B-id'' = Some \<lparr>vn_fq_name = demo_scope @ [''net-B'']\<rparr>
   \<and> fst (calculate_instance_properties two_network_pool demo_vip (initial_state two_network_store))
       = Inl (AttributeError ''join'')
   \<and> fst (update_loadbalancer_instance ''p1'' ''v1'' (initial_state two_network_store))
       = Inl (AttributeError ''join'')"
  by (simp add: demo_defs driver_defs api_defs)

text \<open>
  C2: a reconcile call that reaches the template-loading step while the template is
  neither cached nor in the remote store fails with "bad request" naming the pool. In the
  first scenario without the template, the call fails with \<^verbatim>\<open>NameError\<close> on \<^verbatim>\<open>pool_id\<close>.
\<close>

theorem missing_template_raises_name_error:
  "service_templates no_template_store LOADBALANCER_SERVICE_TEMPLATE = None
   \<and> fst (calculate_instance_properties demo_pool demo_vip (initial_state no_template_store))
       = Inr (Some demo_props)
   \<and> fst (update_loadbalancer_instance ''p1'' ''v1'' (initial_state no_template_store))
       = Inl (NameError ''pool_id'')"
  by (simp add: demo_defs driver_defs api_defs)

text \<open>
  C6: when the pool is not in the remote store, reconcile fails with "bad request" for the
  resource \<^verbatim>\<open>pool\<close> with a message that ends in the pool id; when the pool is there and the
  VIP is not, it fails with "bad request" for the resource \<^verbatim>\<open>vip\<close> with a message that
  ends in the VIP id. In both cases the remote store is as before and the only calls made
  are the reads.
\<close>

theorem reconcile_missing_pool_or_vip:
  "(loadbalancer_pools (remote s) pool_id = None \<longrightarrow>
      fst (update_loadbalancer_instance pool_id vip_id s)
        = Inl (BadRequest ''pool'' (''Unable to retrieve pool '' @ pool_id))
      \<and> remote (snd (update_loadbalancer_instance pool_id vip_id s)) = remote s
      \<and> calls (snd (update_loadbalancer_instance pool_id vip_id s))
          = calls s @ [LoadbalancerPoolRead pool_id])
   \<and> (loadbalancer_pools (remote t) pool_id' = Some pool \<and> virtual_ips (remote t) vip_id' = None \<longrightarrow>
      fst (update_loadbalancer_instance pool_id' vip_id' t)
        = Inl (BadRequest ''vip'' (''Unable to retrieve virtual-ip '' @ vip_id'))
      \<and> remote (snd (update_loadbalancer_instance pool_id' vip_id' t)) = remote t
      \<and> calls (snd (update_loadbalancer_instance pool_id' vip_id' t))
          = calls t @ [LoadbalancerPoolRead pool_id', VirtualIpRead vip_id'])"
  by (simp add: update_loadbalancer_instance_def loadbalancer_pool_read_def virtual_ip_read_def
      api_read_Some api_read_None)

theorem reconcile_missing_pool_or_vip_witness:
  "loadbalancer_pools (remote (initial_state demo_store)) ''p9'' = None
   \<and> fst (update_loadbalancer_instance ''p9'' ''v1'' (initial_state demo_store))
       = Inl (BadRequest ''pool'' ''Unable to retrieve pool p9'')
   \<and> calls (snd (update_loadbalancer_instance ''p9'' ''v1'' (initial_state demo_store)))
       = [LoadbalancerPoolRead ''p9'']
   \<and> loadbalancer_pools (remote (initial_state demo_store)) ''p1'' = Some demo_pool
   \<and> virtual_ips (remote (initial_state demo_store)) ''v9'' = None
   \<and> fst (update_loadbalancer_instance ''p1'' ''v9'' (initial_state demo_store))
       = Inl (BadRequest ''vip'' ''Unable to retrieve virtual-ip v9'')
   \<and> calls (snd (update_loadbalancer_instance ''p1'' ''v9'' (initial_state demo_store)))
       = [LoadbalancerPoolRead ''p1'', VirtualIpRead ''v9'']"
  using reconcile_missing_pool_or_vip [of "initial_state demo_store" "''p9''" "''v1''"
      "initial_state demo_store" "''p1''" demo_pool "''v9''"]
  by (simp add: demo_store_def initial_state_def)

text \<open>
  C8: when the project of the tenant is not in the remote store, the clear path logs the
  error and returns normally after the one read, without a delete. When the project is
  there and the delete fails with "references exist", it logs that error and returns
  normally, the remote store unchanged.
\<close>

theorem clear_tolerates_missing_project_and_references:
  "(projects (remote s) tenant_id = None \<longrightarrow>
      clear_loadbalancer_instance tenant_id pool_id s
        = (Inr (), LOG_error NoIdError (record_call (ProjectRead tenant_id) s))
      \<and> filter is_si_delete (calls_since s (snd (clear_loadbalancer_instance tenant_id pool_id s))) = [])
   \<and> (projects (remote t) tenant_id' = Some project
       \<and> fst (service_instance_delete (project_fq_name project @ [pool_id']) t) = Inl RefsExistError \<longrightarrow>
      clear_loadbalancer_instance tenant_id' pool_id' t
        = (Inr (), LOG_error RefsExistError
             (record_call (ServiceInstanceDelete (project_fq_name project @ [pool_id']))
               (record_call (ProjectRead tenant_id') t)))
      \<and> remote (snd (clear_loadbalancer_instance tenant_id' pool_id' t)) = remote t)"
  by (auto simp: clear_loadbalancer_instance_def project_read_def api_read_Some api_read_None
      try_service_instance_delete_def service_instance_delete_def api_write_def
      split: sum.splits prod.splits)

theorem clear_tolerates_missing_project_and_references_witness:
  "projects (remote (initial_state associated_store)) ''tenant9'' = None
   \<and> clear_loadbalancer_instance ''tenant9'' ''p1'' (initial_state associated_store)
       = (Inr (), \<lparr>remote = associated_store, calls = [ProjectRead ''tenant9''],
                   logged = [NoIdError], lb_template = None\<rparr>)
   \<and> projects (remote (initial_state associated_store)) ''tenant1'' = Some \<lparr>project_fq_name = demo_scope\<rparr>
   \<and> fst (service_instance_delete (project_fq_name \<lparr>project_fq_name = demo_scope\<rparr> @ [''p1''])
            (initial_state associated_store)) = Inl RefsExistError
   \<and> clear_loadbalancer_instance ''tenant1'' ''p1'' (initial_state associated_store)
       = (Inr (), \<lparr>remote = associated_store,
                   calls = [ProjectRead ''tenant1'', ServiceInstanceDelete (demo_scope @ [''p1''])],
                   logged = [RefsExistError], lb_template = None\<rparr>)"
  using clear_tolerates_missing_project_and_references [of "initial_state associated_store"
      "''tenant9''" "''p1''" "initial_state associated_store" "''tenant1''"
      "\<lparr>project_fq_name = demo_scope\<rparr>" "''p1''"]
  by (simp add: demo_defs api_defs)

text \<open>
  C9: in the "no configuration" branch of reconcile and in the clear path the delete of
  the service instance is the last call made, whether or not an instance exists. When no
  instance exists at the derived name, the call fails with the client's \<^verbatim>\<open>NoIdError\<close>;
  the failure with "references exist" is absorbed.
\<close>

theorem delete_not_found_propagates:
  "(loadbalancer_pools (remote s) pool_id = Some pool \<and> virtual_ips (remote s) vip_id = Some vip
      \<and> fst (calculate_instance_properties pool vip s) = Inr None \<longrightarrow>
      last (calls (snd (update_loadbalancer_instance pool_id vip_id s)))
        = ServiceInstanceDelete (instance_fq_name pool pool_id)
      \<and> (service_instances (remote s) (instance_fq_name pool pool_id) = None \<longrightarrow>
           fst (update_loadbalancer_instance pool_id vip_id s) = Inl NoIdError))
   \<and> (projects (remote t) tenant_id = Some project \<longrightarrow>
      last (calls (snd (clear_loadbalancer_instance tenant_id pool_id' t)))
        = ServiceInstanceDelete (project_fq_name project @ [pool_id'])
      \<and> (service_instances (remote t) (project_fq_name project @ [pool_id']) = None \<longrightarrow>
           fst (clear_loadbalancer_instance tenant_id pool_id' t) = Inl NoIdError))
   \<and> (loadbalancer_pools (remote u) pool_id'' = Some pool'' \<and> virtual_ips (remote u) vip_id'' = Some vip''
      \<and> fst (calculate_instance_properties pool'' vip'' u) = Inr None
      \<and> fst (service_instance_delete (instance_fq_name pool'' pool_id'') u) = Inl RefsExistError \<longrightarrow>
      fst (update_loadbalancer_instance pool_id'' vip_id'' u) = Inr ())"
proof (intro conjI impI)
  assume h: "loadbalancer_pools (remote s) pool_id = Some pool \<and> virtual_ips (remote s) vip_id = Some vip
      \<and> fst (calculate_instance_properties pool vip s) = Inr None"
  then obtain s3 where u: "update_loadbalancer_instance pool_id vip_id s
       = try_service_instance_delete (instance_fq_name pool pool_id) s3"
    and r: "only_reads s s3"
    using update_no_configuration [of s pool_id pool vip_id vip] by blast
  have rem: "remote s3 = remote s" using r by (simp add: only_reads_def)
  show "last (calls (snd (update_loadbalancer_instance pool_id vip_id s)))
        = ServiceInstanceDelete (instance_fq_name pool pool_id)"
    by (simp add: u try_delete_calls)
  {
    assume "service_instances (remote s) (instance_fq_name pool pool_id) = None"
    then show "fst (update_loadbalancer_instance pool_id vip_id s) = Inl NoIdError"
      by (simp add: u try_delete_fst rem)
  }
next
  assume p: "projects (remote t) tenant_id = Some project"
  have c: "clear_loadbalancer_instance tenant_id pool_id' t
      = try_service_instance_delete (project_fq_name project @ [pool_id'])
          (record_call (ProjectRead tenant_id) t)"
    using p by (simp add: clear_loadbalancer_instance_def project_read_def api_read_Some)
  show "last (calls (snd (clear_loadbalancer_instance tenant_id pool_id' t)))
        = ServiceInstanceDelete (project_fq_name project @ [pool_id'])"
    by (simp add: c try_delete_calls)
  {
    assume "service_instances (remote t) (project_fq_name project @ [pool_id']) = None"
    then show "fst (clear_loadbalancer_instance tenant_id pool_id' t) = Inl NoIdError"
      by (simp add: c try_delete_fst)
  }
next
  assume h: "loadbalancer_pools (remote u) pool_id'' = Some pool'' \<and> virtual_ips (remote u) vip_id'' = Some vip''
      \<and> fst (calculate_instance_properties pool'' vip'' u) = Inr None
      \<and> fst (service_instance_delete (instance_fq_name pool'' pool_id'') u) = Inl RefsExistError"
  then obtain s3 where u: "update_loadbalancer_instance pool_id'' vip_id'' u
       = try_service_instance_delete (instance_fq_name pool'' pool_id'') s3"
    and r: "only_reads u s3"
    using update_no_configuration [of u pool_id'' pool'' vip_id'' vip''] by blast
  have rem: "remote s3 = remote u" using r by (simp add: only_reads_def)
  show "fst (update_loadbalancer_instance pool_id'' vip_id'' u) = Inr ()"
    using h by (simp add: u try_delete_fst rem service_instance_delete_fst split: option.splits)
qed

theorem delete_not_found_propagates_witness:
  "loadbalancer_pools (remote (initial_state unbound_store)) ''p1'' = Some demo_pool
   \<and> virtual_ips (remote (initial_state unbound_store)) ''v1'' = Some unbound_vip
   \<and> fst (calculate_instance_properties demo_pool unbound_vip (initial_state unbound_store)) = Inr None
   \<and> service_instances (remote (initial_state unbound_store)) (instance_fq_name demo_pool ''p1'') = None
   \<and> fst (update_loadbalancer_instance ''p1'' ''v1'' (initial_state unbound_store)) = Inl NoIdError
   \<and> last (calls (snd (update_loadbalancer_instance ''p1'' ''v1'' (initial_state unbound_store))))
       = ServiceInstanceDelete [''default-domain'', ''demo'', ''p1'']
   \<and> projects (remote (initial_state unbound_store)) ''tenant1'' = Some \<lparr>project_fq_name = demo_scope\<rparr>
   \<and> service_instances (remote (initial_state unbound_store))
        (project_fq_name \<lparr>project_fq_name = demo_scope\<rparr> @ [''p1'']) = None
   \<and> fst (clear_loadbalancer_instance ''tenant1'' ''p1'' (initial_state unbound_store)) = Inl NoIdError
   \<and> last (calls (snd (clear_loadbalancer_instance ''tenant1'' ''p1'' (initial_state unbound_store))))
       = ServiceInstanceDelete [''default-domain'', ''demo'', ''p1'']
   \<and> loadbalancer_pools (remote (initial_state unbound_associated_store)) ''p1'' = Some associated_pool
   \<and> virtual_ips (remote (initial_state unbound_associated_store)) ''v1'' = Some unbound_vip
   \<and> fst (calculate_instance_properties associated_pool unbound_vip
            (initial_state unbound_associated_store)) = Inr None
   \<and> fst (service_instance_delete (instance_fq_name associated_pool ''p1'')
            (initial_state unbound_associated_store)) = Inl RefsExistError
   \<and> fst (update_loadbalancer_instance ''p1'' ''v1'' (initial_state unbound_associated_store)) = Inr ()"
  using delete_not_found_propagates [of "initial_state unbound_store" "''p1''" demo_pool "''v1''"
      unbound_vip "initial_state unbound_store" "''tenant1''" "\<lparr>project_fq_name = demo_scope\<rparr>" "''p1''"
      "initial_state unbound_associated_store" "''p1''" associated_pool "''v1''" unbound_vip]
  by (simp add: demo_defs driver_defs api_defs)

text \<open>
  C10: \<^verbatim>\<open>create_vip\<close> and \<^verbatim>\<open>create_pool\<close> fetch the service template before they look at
  the relation field. With an empty \<^verbatim>\<open>pool_id\<close> (or \<^verbatim>\<open>vip_id\<close>) and no cached template, the
  one call they make is the read of the template; when the template is not in the remote
  store the handler fails, although it would not have reconciled anything.
\<close>

theorem create_handlers_fetch_template_first:
  "(\<not> truthy (vipd_pool_id vip) \<and> lb_template s = None \<longrightarrow>
      calls (snd (create_vip vip s)) = calls s @ [ServiceTemplateRead LOADBALANCER_SERVICE_TEMPLATE]
      \<and> (service_templates (remote s) LOADBALANCER_SERVICE_TEMPLATE = None \<longrightarrow>
           fst (create_vip vip s) = Inl (NameError ''pool_id'')))
   \<and> (\<not> truthy (poold_vip_id pool) \<and> lb_template t = None \<longrightarrow>
      calls (snd (create_pool pool t)) = calls t @ [ServiceTemplateRead LOADBALANCER_SERVICE_TEMPLATE]
      \<and> (service_templates (remote t) LOADBALANCER_SERVICE_TEMPLATE = None \<longrightarrow>
           fst (create_pool pool t) = Inl (NameError ''pool_id'')))"
  by (auto simp: create_vip_def create_pool_def get_template_def service_template_read_def
      api_read_def split: option.splits)

theorem create_handlers_fetch_template_first_witness:
  "\<not> truthy (vipd_pool_id \<lparr>vipd_id = ''v1'', vipd_tenant_id = ''tenant1'', vipd_pool_id = Some []\<rparr>)
   \<and> lb_template (initial_state no_template_store) = None
   \<and> service_templates (remote (initial_state no_template_store)) LOADBALANCER_SERVICE_TEMPLATE = None
   \<and> create_vip \<lparr>vipd_id = ''v1'', vipd_tenant_id = ''tenant1'', vipd_pool_id = Some []\<rparr>
        (initial_state no_template_store)
       = (Inl (NameError ''pool_id''),
          \<lparr>remote = no_template_store, calls = [ServiceTemplateRead LOADBALANCER_SERVICE_TEMPLATE],
            logged = [], lb_template = None\<rparr>)
   \<and> \<not> truthy (poold_vip_id \<lparr>poold_id = ''p1'', poold_tenant_id = ''tenant1'', poold_vip_id = None\<rparr>)
   \<and> create_pool \<lparr>poold_id = ''p1'', poold_tenant_id = ''tenant1'', poold_vip_id = None\<rparr>
        (initial_state no_template_store)
       = (Inl (NameError ''pool_id''),
          \<lparr>remote = no_template_store, calls = [ServiceTemplateRead LOADBALANCER_SERVICE_TEMPLATE],
            logged = [], lb_template = None\<rparr>)"
  using create_handlers_fetch_template_first
    [of "\<lparr>vipd_id = ''v1'', vipd_tenant_id = ''tenant1'', vipd_pool_id = Some []\<rparr>"
        "initial_state no_template_store"
        "\<lparr>poold_id = ''p1'', poold_tenant_id = ''tenant1'', poold_vip_id = None\<rparr>"
        "initial_state no_template_store"]
  by (simp add: demo_defs driver_defs api_defs)

text \<open>
  C5: when the template can be loaded and the service instance found at the derived name
  has properties that differ from the computed ones in exactly one of the three fields,
  reconcile makes exactly one service-instance update call, and the object it pushes
  carries the whole computed properties record.
\<close>

theorem drift_triggers_one_update:
  assumes pool: "loadbalancer_pools (remote s) pool_id = Some pool"
    and vip: "virtual_ips (remote s) vip_id = Some vip"
    and calc: "fst (calculate_instance_properties pool vip s) = Inr (Some nprops)"
    and tmpl: "fst (get_template s) = Inr ()"
    and si: "service_instances (remote s) (instance_fq_name pool pool_id) = Some si"
    and cur: "service_instance_properties si = Some current"
    and diff: "differing_fields current nprops = 1"
  shows "calls (snd (update_loadbalancer_instance pool_id vip_id s))
        = calls s @ calls_since s (snd (update_loadbalancer_instance pool_id vip_id s))
    \<and> filter is_si_update (calls_since s (snd (update_loadbalancer_instance pool_id vip_id s)))
        = [ServiceInstanceUpdate (si\<lparr>service_instance_properties := Some nprops\<rparr>)]"
proof -
  let ?fq = "instance_fq_name pool pool_id"
  let ?u = "update_loadbalancer_instance pool_id vip_id s"
  have av: "template_available s"
    using tmpl by (simp add: get_template_fst split: if_splits)
  obtain s4 where u: "?u = (case resolve_instance ?fq nprops s4 of
            (Inl ex, s5) \<Rightarrow> (Inl ex, s5)
          | (Inr si_obj, s5) \<Rightarrow> associate_pool pool si_obj s5)"
    and nw: "no_writes s s4"
    using update_deploy [OF pool vip calc av] by blast
  obtain cs4 where rem: "remote s4 = remote s" and c4: "calls s4 = calls s @ cs4"
    and w4: "filter is_write cs4 = []"
    using nw by (auto simp: no_writes_def)
  have si4: "service_instances (remote s4) ?fq = Some si" using si rem by simp
  obtain cs5 where c5: "calls (snd (resolve_instance ?fq nprops s4)) = calls s4 @ cs5"
    and u5: "filter is_si_update cs5 = [ServiceInstanceUpdate (si\<lparr>service_instance_properties := Some nprops\<rparr>)]"
    using resolve_found_differs_calls [OF si4 cur differing_fields_one [OF diff]] by blast
  obtain r5 s5 where r: "resolve_instance ?fq nprops s4 = (r5, s5)" by fastforce
  have "\<exists>cs6. calls (snd ?u) = calls s5 @ cs6 \<and> filter is_si_update cs6 = []"
  proof (cases r5)
    case (Inl ex)
    then show ?thesis using u r by simp
  next
    case (Inr si_obj)
    then show ?thesis using u r associate_pool_calls [of pool si_obj s5] by simp
  qed
  then obtain cs6 where c6: "calls (snd ?u) = calls s5 @ cs6" and u6: "filter is_si_update cs6 = []"
    by blast
  have all: "calls (snd ?u) = calls s @ (cs4 @ cs5 @ cs6)"
    using c4 c5 c6 r by simp
  have since: "calls_since s (snd ?u) = cs4 @ cs5 @ cs6"
    using all by (rule calls_since_append)
  show ?thesis
    unfolding since using all u5 u6 filter_write_empty(1) [OF w4] by simp
qed

theorem drift_triggers_one_update_witness:
  "loadbalancer_pools (remote (initial_state drifted_store)) ''p1'' = Some demo_pool
   \<and> virtual_ips (remote (initial_state drifted_store)) ''v1'' = Some demo_vip
   \<and> fst (calculate_instance_properties demo_pool demo_vip (initial_state drifted_store))
       = Inr (Some demo_props)
   \<and> fst (get_template (initial_state drifted_store)) = Inr ()
   \<and> service_instances (remote (initial_state drifted_store)) (instance_fq_name demo_pool ''p1'')
       = Some drifted_instance
   \<and> service_instance_properties drifted_instance = Some drifted_props
   \<and> differing_fields drifted_props demo_props = 1
   \<and> filter is_si_update
        (calls_since (initial_state drifted_store)
          (snd (update_loadbalancer_instance ''p1'' ''v1'' (initial_state drifted_store))))
       = [ServiceInstanceUpdate (drifted_instance\<lparr>service_instance_properties := Some demo_props\<rparr>)]
   \<and> map_option service_instance_properties
        (service_instances
          (remote (snd (update_loadbalancer_instance ''p1'' ''v1'' (initial_state drifted_store))))
          [''default-domain'', ''demo'', ''p1''])
       = Some (Some demo_props)"
  using drift_triggers_one_update [of "initial_state drifted_store" "''p1''" demo_pool "''v1''"
      demo_vip demo_props drifted_instance drifted_props]
  by (simp add: demo_defs driver_defs api_defs differing_fields_def)

text \<open>
  C7: when the template can be loaded and a service instance is created or found at the
  derived name, a pool update is pushed if and only if the pool has no stored reference
  to a service instance or the uuid of its stored reference differs from the uuid of the
  resolved instance, which is the instance at the derived name after the call.
\<close>

theorem pool_update_iff_reference_differs:
  assumes pool: "loadbalancer_pools (remote s) pool_id = Some pool"
    and vip: "virtual_ips (remote s) vip_id = Some vip"
    and calc: "fst (calculate_instance_properties pool vip s) = Inr (Some props)"
    and tmpl: "fst (get_template s) = Inr ()"
    and res: "instance_resolvable (remote s) (instance_fq_name pool pool_id)"
  shows "calls (snd (update_loadbalancer_instance pool_id vip_id s))
        = calls s @ calls_since s (snd (update_loadbalancer_instance pool_id vip_id s))
    \<and> (case service_instances (remote (snd (update_loadbalancer_instance pool_id vip_id s)))
               (instance_fq_name pool pool_id) of
          None \<Rightarrow> False
        | Some resolved \<Rightarrow>
            (filter is_pool_update (calls_since s (snd (update_loadbalancer_instance pool_id vip_id s))) \<noteq> [])
              = reference_differs (service_instance_refs pool) (si_uuid resolved))"
proof -
  let ?fq = "instance_fq_name pool pool_id"
  let ?u = "update_loadbalancer_instance pool_id vip_id s"
  have av: "template_available s"
    using tmpl by (simp add: get_template_fst split: if_splits)
  obtain s4 where u: "?u = (case resolve_instance ?fq props s4 of
            (Inl ex, s5) \<Rightarrow> (Inl ex, s5)
          | (Inr si_obj, s5) \<Rightarrow> associate_pool pool si_obj s5)"
    and nw: "no_writes s s4" and ld: "lb_template s4 \<noteq> None"
    using update_deploy [OF pool vip calc av] by blast
  obtain cs4 where rem: "remote s4 = remote s" and c4: "calls s4 = calls s @ cs4"
    and w4: "filter is_write cs4 = []"
    using nw by (auto simp: no_writes_def)
  have res4: "instance_resolvable (remote s4) ?fq" using res rem by simp
  obtain si_obj s5 cs5 x where r: "resolve_instance ?fq props s4 = (Inr si_obj, s5)"
    and c5: "calls s5 = calls s4 @ cs5" and p5: "filter is_pool_update cs5 = []"
    and x: "service_instances (remote s5) ?fq = Some x" and ux: "si_uuid x = si_uuid si_obj"
    using resolve_succeeds [OF ld res4, of props] by blast
  have ua: "?u = associate_pool pool si_obj s5" using u r by simp
  obtain cs6 x' where c6: "calls (snd ?u) = calls s5 @ cs6"
    and p6: "(filter is_pool_update cs6 \<noteq> []) = reference_differs (service_instance_refs pool) (si_uuid si_obj)"
    and x': "service_instances (remote (snd ?u)) ?fq = Some x'" and core: "si_core x' = si_core x"
    using associate_pool_effect [OF x, of pool si_obj] ua by auto
  have all: "calls (snd ?u) = calls s @ (cs4 @ cs5 @ cs6)"
    using c4 c5 c6 by simp
  have since: "calls_since s (snd ?u) = cs4 @ cs5 @ cs6"
    using all by (rule calls_since_append)
  have "si_uuid x' = si_uuid si_obj" using core ux by (simp add: si_core_def)
  then show ?thesis
    unfolding since using all x' p5 p6 filter_write_empty(2) [OF w4] by simp
qed

theorem pool_update_iff_reference_differs_witness:
  "loadbalancer_pools (remote (initial_state demo_store)) ''p1'' = Some demo_pool
   \<and> virtual_ips (remote (initial_state demo_store)) ''v1'' = Some demo_vip
   \<and> fst (calculate_instance_properties demo_pool demo_vip (initial_state demo_store))
       = Inr (Some demo_props)
   \<and> fst (get_template (initial_state demo_store)) = Inr ()
   \<and> instance_resolvable (remote (initial_state demo_store)) (instance_fq_name demo_pool ''p1'')
   \<and> map_option si_uuid
        (service_instances
          (remote (snd (update_loadbalancer_instance ''p1'' ''v1'' (initial_state demo_store))))
          (instance_fq_name demo_pool ''p1''))
       = Some (Some ''si-uuid-'')
   \<and> reference_differs (service_instance_refs demo_pool) (Some ''si-uuid-'')
   \<and> filter is_pool_update
        (calls_since (initial_state demo_store)
          (snd (update_loadbalancer_instance ''p1'' ''v1'' (initial_state demo_store))))
       = [LoadbalancerPoolUpdate
            (demo_pool\<lparr>service_instance_refs :=
               Some [\<lparr>ref_to = [''default-domain'', ''demo'', ''p1''], ref_uuid = ''si-uuid-''\<rparr>]\<rparr>)]"
  using pool_update_iff_reference_differs [of "initial_state demo_store" "''p1''" demo_pool "''v1''"
      demo_vip demo_props]
  by (simp add: demo_defs driver_defs api_defs instance_resolvable_def reference_differs_def)

text \<open>
  C3: when the VIP has no interface reference, the interface is not found, the interface
  has no virtual-network reference, or no address can be resolved, the property
  calculator yields "no configuration" and not an error. The reconciler then makes one
  write, the delete of the service instance at the derived qualified name, as its last
  call; it creates and updates no service instance and does not load the template. When
  an instance exists at that name it returns normally: an instance without back
  references is gone from the store, which is otherwise as before; for an instance that
  pools still refer to the store is as before and \<^verbatim>\<open>RefsExistError\<close> is the last error
  logged. When no instance exists there, the call fails with the client's \<^verbatim>\<open>NoIdError\<close>
  and the store is as before.
\<close>

theorem reconcile_without_configuration:
  assumes "loadbalancer_pools (remote s) pool_id = Some pool"
    and "virtual_ips (remote s) vip_id = Some vip"
    and "interface_unresolved (remote s) vip"
  shows "fst (calculate_instance_properties pool vip s) = Inr None
    \<and> calls (snd (update_loadbalancer_instance pool_id vip_id s))
        = calls s @ calls_since s (snd (update_loadbalancer_instance pool_id vip_id s))
    \<and> filter is_write (calls_since s (snd (update_loadbalancer_instance pool_id vip_id s)))
        = [ServiceInstanceDelete (instance_fq_name pool pool_id)]
    \<and> last (calls_since s (snd (update_loadbalancer_instance pool_id vip_id s)))
        = ServiceInstanceDelete (instance_fq_name pool pool_id)
    \<and> filter is_si_create_or_update (calls_since s (snd (update_loadbalancer_instance pool_id vip_id s))) = []
    \<and> filter is_template_read (calls_since s (snd (update_loadbalancer_instance pool_id vip_id s))) = []
    \<and> lb_template (snd (update_loadbalancer_instance pool_id vip_id s)) = lb_template s
    \<and> (case service_instances (remote s) (instance_fq_name pool pool_id) of
          None \<Rightarrow>
            fst (update_loadbalancer_instance pool_id vip_id s) = Inl NoIdError
            \<and> remote (snd (update_loadbalancer_instance pool_id vip_id s)) = remote s
        | Some si \<Rightarrow>
            fst (update_loadbalancer_instance pool_id vip_id s) = Inr ()
            \<and> (if si_pool_back_refs si = []
                then remote (snd (update_loadbalancer_instance pool_id vip_id s))
                       = (remote s)\<lparr>service_instances :=
                            (service_instances (remote s))(instance_fq_name pool pool_id := None)\<rparr>
                else remote (snd (update_loadbalancer_instance pool_id vip_id s)) = remote s
                     \<and> logged (snd (update_loadbalancer_instance pool_id vip_id s)) \<noteq> []
                     \<and> last (logged (snd (update_loadbalancer_instance pool_id vip_id s)))
                         = RefsExistError))"
proof -
  let ?fq = "instance_fq_name pool pool_id"
  let ?u = "update_loadbalancer_instance pool_id vip_id s"
  have none: "fst (calculate_instance_properties pool vip s) = Inr None"
    using assms(3) by (simp add: calculate_instance_properties_fst interface_unresolved_desired)
  obtain s3 where u: "?u = try_service_instance_delete ?fq s3"
    and r: "only_reads s s3"
    using update_no_configuration [OF assms(1,2) none] by blast
  obtain cs where rem: "remote s3 = remote s" and tm: "lb_template s3 = lb_template s"
    and cs: "calls s3 = calls s @ cs" "filter is_write cs = []" "filter is_template_read cs = []"
    using r by (auto simp: only_reads_def)
  have c: "calls (snd ?u) = calls s @ (cs @ [ServiceInstanceDelete ?fq])"
    by (simp add: u try_delete_calls cs)
  have since: "calls_since s (snd ?u) = cs @ [ServiceInstanceDelete ?fq]"
    using c by (rule calls_since_append)
  have nocu: "filter is_si_create_or_update cs = []"
  proof -
    have "\<And>c. is_si_create_or_update c \<Longrightarrow> is_write c"
      by (case_tac c) simp_all
    then show ?thesis using cs(2) by (auto simp: filter_empty_conv)
  qed
  have trace: "calls (snd ?u) = calls s @ calls_since s (snd ?u)
    \<and> filter is_write (calls_since s (snd ?u)) = [ServiceInstanceDelete ?fq]
    \<and> last (calls_since s (snd ?u)) = ServiceInstanceDelete ?fq
    \<and> filter is_si_create_or_update (calls_since s (snd ?u)) = []
    \<and> filter is_template_read (calls_since s (snd ?u)) = []
    \<and> lb_template (snd ?u) = lb_template s"
    unfolding since using c cs nocu by (simp add: u try_delete_lb_template tm)
  have outcome: "case service_instances (remote s) ?fq of
          None \<Rightarrow> fst ?u = Inl NoIdError \<and> remote (snd ?u) = remote s
        | Some si \<Rightarrow>
            fst ?u = Inr ()
            \<and> (if si_pool_back_refs si = []
                then remote (snd ?u)
                       = (remote s)\<lparr>service_instances := (service_instances (remote s))(?fq := None)\<rparr>
                else remote (snd ?u) = remote s \<and> logged (snd ?u) \<noteq> []
                     \<and> last (logged (snd ?u)) = RefsExistError)"
    by (simp add: u try_delete_fst try_delete_state rem split: option.splits)
  show ?thesis using none trace outcome by (elim conjE, intro conjI) assumption+
qed

theorem reconcile_without_configuration_witness:
  "loadbalancer_pools (remote (initial_state unbound_deployed_store)) ''p1'' = Some demo_pool
   \<and> virtual_ips (remote (initial_state unbound_deployed_store)) ''v1'' = Some unbound_vip
   \<and> interface_unresolved (remote (initial_state unbound_deployed_store)) unbound_vip
   \<and> fst (calculate_instance_properties demo_pool unbound_vip (initial_state unbound_deployed_store))
       = Inr None
   \<and> calls (snd (update_loadbalancer_instance ''p1'' ''v1'' (initial_state unbound_deployed_store)))
       = [LoadbalancerPoolRead ''p1'', VirtualIpRead ''v1'',
          ServiceInstanceDelete [''default-domain'', ''demo'', ''p1'']]
   \<and> fst (update_loadbalancer_instance ''p1'' ''v1'' (initial_state unbound_deployed_store)) = Inr ()
   \<and> service_instances
        (remote (snd (update_loadbalancer_instance ''p1'' ''v1'' (initial_state unbound_deployed_store))))
        [''default-domain'', ''demo'', ''p1''] = None
   \<and> loadbalancer_pools (remote (initial_state unbound_associated_store)) ''p1'' = Some associated_pool
   \<and> virtual_ips (remote (initial_state unbound_associated_store)) ''v1'' = Some unbound_vip
   \<and> interface_unresolved (remote (initial_state unbound_associated_store)) unbound_vip
   \<and> fst (calculate_instance_properties associated_pool unbound_vip
            (initial_state unbound_associated_store)) = Inr None
   \<and> fst (update_loadbalancer_instance ''p1'' ''v1'' (initial_state unbound_associated_store)) = Inr ()
   \<and> logged (snd (update_loadbalancer_instance ''p1'' ''v1'' (initial_state unbound_associated_store)))
       = [RefsExistError]
   \<and> service_instances
        (remote (snd (update_loadbalancer_instance ''p1'' ''v1'' (initial_state unbound_associated_store))))
        [''default-domain'', ''demo'', ''p1''] \<noteq> None"
proof -
  have d1: "loadbalancer_pools (remote (initial_state unbound_deployed_store)) ''p1'' = Some demo_pool"
    and d2: "virtual_ips (remote (initial_state unbound_deployed_store)) ''v1'' = Some unbound_vip"
    and d3: "interface_unresolved (remote (initial_state unbound_deployed_store)) unbound_vip"
    by (simp_all add: demo_defs interface_unresolved_def)
  have a1: "loadbalancer_pools (remote (initial_state unbound_associated_store)) ''p1'' = Some associated_pool"
    and a2: "virtual_ips (remote (initial_state unbound_associated_store)) ''v1'' = Some unbound_vip"
    and a3: "interface_unresolved (remote (initial_state unbound_associated_store)) unbound_vip"
    by (simp_all add: demo_defs interface_unresolved_def)
  have dn: "fst (calculate_instance_properties demo_pool unbound_vip (initial_state unbound_deployed_store))
       = Inr None"
    using reconcile_without_configuration [OF d1 d2 d3] by (rule conjunct1)
  have an: "fst (calculate_instance_properties associated_pool unbound_vip
            (initial_state unbound_associated_store)) = Inr None"
    using reconcile_without_configuration [OF a1 a2 a3] by (rule conjunct1)
  have run: "calls (snd (update_loadbalancer_instance ''p1'' ''v1'' (initial_state unbound_deployed_store)))
       = [LoadbalancerPoolRead ''p1'', VirtualIpRead ''v1'',
          ServiceInstanceDelete [''default-domain'', ''demo'', ''p1'']]
   \<and> fst (update_loadbalancer_instance ''p1'' ''v1'' (initial_state unbound_deployed_store)) = Inr ()
   \<and> service_instances
        (remote (snd (update_loadbalancer_instance ''p1'' ''v1'' (initial_state unbound_deployed_store))))
        [''default-domain'', ''demo'', ''p1''] = None
   \<and> fst (update_loadbalancer_instance ''p1'' ''v1'' (initial_state unbound_associated_store)) = Inr ()
   \<and> logged (snd (update_loadbalancer_instance ''p1'' ''v1'' (initial_state unbound_associated_store)))
       = [RefsExistError]
   \<and> service_instances
        (remote (snd (update_loadbalancer_instance ''p1'' ''v1'' (initial_state unbound_associated_store))))
        [''default-domain'', ''demo'', ''p1''] \<noteq> None"
    by (simp add: demo_defs driver_defs api_defs)
  show ?thesis using d1 d2 d3 a1 a2 a3 dn an run by blast
qed

text \<open>
  The claim as it is written says that the reconciler returns. With the VIP without an
  interface and no service instance in the store it does not return: the delete fails
  with \<^verbatim>\<open>NoIdError\<close>, which reconcile does not handle.
\<close>

theorem reconcile_without_configuration_counterexample:
  "virtual_machine_interface_refs unbound_vip = None
   \<and> loadbalancer_pools unbound_store ''p1'' = Some demo_pool
   \<and> virtual_ips unbound_store ''v1'' = Some unbound_vip
   \<and> fst (calculate_instance_properties demo_pool unbound_vip (initial_state unbound_store)) = Inr None
   \<and> fst (update_loadbalancer_instance ''p1'' ''v1'' (initial_state unbound_store)) = Inl NoIdError
   \<and> fst (update_loadbalancer_instance ''p1'' ''v1'' (initial_state unbound_store)) \<noteq> Inr ()"
  by (simp add: demo_defs driver_defs api_defs)

text \<open>
  C4: a reconcile call that finds pool and VIP and computes a configuration makes at most
  two writes, and a second reconcile, run on the state the first one left, makes no write
  at all. When the service instance found at the derived name has properties that agree
  with the computed ones in all three fields, the first call writes no service-instance
  update and makes at most one write (the pool update that stores the reference). The
  pool is stored under its own uuid; an instance stored under the derived name carries
  that name, a properties record and a uuid, as every object read from the store does.
\<close>

theorem reconcile_idempotent:
  assumes pool: "loadbalancer_pools (remote s) pool_id = Some pool"
    and key: "pool_uuid pool = pool_id"
    and vip: "virtual_ips (remote s) vip_id = Some vip"
    and calc: "fst (calculate_instance_properties pool vip s) = Inr (Some nprops)"
    and res: "instance_resolvable (remote s) (instance_fq_name pool pool_id)"
    and idn: "instance_identified (remote s) (instance_fq_name pool pool_id)"
  shows "calls (snd (update_loadbalancer_instance pool_id vip_id s))
        = calls s @ calls_since s (snd (update_loadbalancer_instance pool_id vip_id s))
    \<and> length (filter is_write (calls_since s (snd (update_loadbalancer_instance pool_id vip_id s)))) \<le> 2
    \<and> (in_sync (remote s) (instance_fq_name pool pool_id) nprops \<longrightarrow>
         filter is_si_update (calls_since s (snd (update_loadbalancer_instance pool_id vip_id s))) = []
         \<and> length (filter is_write
              (calls_since s (snd (update_loadbalancer_instance pool_id vip_id s)))) \<le> 1)
    \<and> calls (snd (update_loadbalancer_instance pool_id vip_id
                     (snd (update_loadbalancer_instance pool_id vip_id s))))
        = calls (snd (update_loadbalancer_instance pool_id vip_id s))
          @ calls_since (snd (update_loadbalancer_instance pool_id vip_id s))
              (snd (update_loadbalancer_instance pool_id vip_id
                     (snd (update_loadbalancer_instance pool_id vip_id s))))
    \<and> filter is_write
          (calls_since (snd (update_loadbalancer_instance pool_id vip_id s))
             (snd (update_loadbalancer_instance pool_id vip_id
                    (snd (update_loadbalancer_instance pool_id vip_id s))))) = []"
proof -
  let ?fq = "instance_fq_name pool pool_id"
  let ?s1 = "snd (update_loadbalancer_instance pool_id vip_id s)"
  let ?s2 = "snd (update_loadbalancer_instance pool_id vip_id ?s1)"
  have both: "\<exists>cs cs'. calls ?s1 = calls s @ cs \<and> length (filter is_write cs) \<le> 2
      \<and> calls ?s2 = calls ?s1 @ cs' \<and> filter is_write cs' = []"
  proof (cases "template_available s")
    case False
    obtain cs where c1: "calls ?s1 = calls s @ cs" and w1: "filter is_write cs = []"
      and rem: "remote ?s1 = remote s" and na: "\<not> template_available ?s1"
      using reconcile_template_missing [OF pool vip calc False] by blast
    have pool1: "loadbalancer_pools (remote ?s1) pool_id = Some pool" using pool rem by simp
    have vip1: "virtual_ips (remote ?s1) vip_id = Some vip" using vip rem by simp
    have calc1: "fst (calculate_instance_properties pool vip ?s1) = Inr (Some nprops)"
      using calc rem by (simp add: calculate_instance_properties_fst)
    obtain cs' where "calls ?s2 = calls ?s1 @ cs'" "filter is_write cs' = []"
      using reconcile_template_missing [OF pool1 vip1 calc1 na] by blast
    then show ?thesis using c1 w1 by auto
  next
    case True
    obtain cs pool1 x where c1: "calls ?s1 = calls s @ cs" and w1: "length (filter is_write cs) \<le> 2"
      and av1: "template_available ?s1"
      and p1: "loadbalancer_pools (remote ?s1) pool_id = Some pool1"
      and fq1: "pool_fq_name pool1 = pool_fq_name pool"
      and at1: "loadbalancer_pool_properties pool1 = loadbalancer_pool_properties pool"
      and v1: "virtual_ips (remote ?s1) = virtual_ips (remote s)"
      and view1: "calc_view (remote ?s1) = calc_view (remote s)"
      and x1: "service_instances (remote ?s1) ?fq = Some x"
      and px: "service_instance_properties x = Some nprops"
      and nd: "\<not> reference_differs (service_instance_refs pool1) (si_uuid x)"
      using reconcile_configured [OF pool key vip calc res idn True] by blast
    have vip1: "virtual_ips (remote ?s1) vip_id = Some vip" using vip v1 by simp
    have calc1: "fst (calculate_instance_properties pool1 vip ?s1) = Inr (Some nprops)"
      using calc desired_properties_view [OF view1, of "loadbalancer_pool_properties pool" vip]
      by (simp add: calculate_instance_properties_fst at1)
    have fqe: "instance_fq_name pool1 pool_id = ?fq"
      using fq1 by (simp add: instance_fq_name_def)
    have si1: "service_instances (remote ?s1) (instance_fq_name pool1 pool_id) = Some x"
      using x1 fqe by simp
    have sm: "update_loop nprops nprops fields_list = Inr False"
      by (simp add: update_loop_fields)
    obtain cs' where "calls ?s2 = calls ?s1 @ cs'" "filter is_write cs' = []"
      using reconcile_in_sync [OF p1 vip1 calc1 si1 px sm] nd by auto
    then show ?thesis using c1 w1 by auto
  qed
  then obtain cs cs' where c1: "calls ?s1 = calls s @ cs" and w1: "length (filter is_write cs) \<le> 2"
    and c2: "calls ?s2 = calls ?s1 @ cs'" and w2: "filter is_write cs' = []"
    by blast
  have since1: "calls_since s ?s1 = cs" using c1 by (rule calls_since_append)
  have since2: "calls_since ?s1 ?s2 = cs'" using c2 by (rule calls_since_append)
  have sync: "in_sync (remote s) ?fq nprops \<longrightarrow>
      filter is_si_update cs = [] \<and> length (filter is_write cs) \<le> 1"
  proof
    assume "in_sync (remote s) ?fq nprops"
    then obtain si current where si: "service_instances (remote s) ?fq = Some si"
      and cur: "service_instance_properties si = Some current"
      and same: "right_virtual_network current = right_virtual_network nprops"
        "right_ip_address current = right_ip_address nprops"
        "left_virtual_network current = left_virtual_network nprops"
      by (auto simp: in_sync_def split: option.splits)
    have sm: "update_loop current nprops fields_list = Inr False"
      using same by (rule update_loop_same)
    obtain ds where d1: "calls ?s1 = calls s @ ds" and "filter is_si_update ds = []"
      and "length (filter is_write ds) \<le> 1"
      using reconcile_in_sync [OF pool vip calc si cur sm] by (auto split: if_splits)
    moreover have "ds = cs" using c1 d1 by simp
    ultimately show "filter is_si_update cs = [] \<and> length (filter is_write cs) \<le> 1" by simp
  qed
  show ?thesis unfolding since1 since2 using c1 w1 c2 w2 sync by blast
qed

theorem reconcile_idempotent_witness:
  "loadbalancer_pools (remote (initial_state demo_store)) ''p1'' = Some demo_pool
   \<and> pool_uuid demo_pool = ''p1''
   \<and> virtual_ips (remote (initial_state demo_store)) ''v1'' = Some demo_vip
   \<and> fst (calculate_instance_properties demo_pool demo_vip (initial_state demo_store))
       = Inr (Some demo_props)
   \<and> instance_resolvable (remote (initial_state demo_store)) (instance_fq_name demo_pool ''p1'')
   \<and> instance_identified (remote (initial_state demo_store)) (instance_fq_name demo_pool ''p1'')
   \<and> length (filter is_write
        (calls_since (initial_state demo_store)
          (snd (update_loadbalancer_instance ''p1'' ''v1'' (initial_state demo_store))))) = 2
   \<and> filter is_write
        (calls_since (snd (update_loadbalancer_instance ''p1'' ''v1'' (initial_state demo_store)))
          (snd (update_loadbalancer_instance ''p1'' ''v1''
                 (snd (update_loadbalancer_instance ''p1'' ''v1'' (initial_state demo_store))))))
       = []
   \<and> loadbalancer_pools (remote (initial_state deployed_store)) ''p1'' = Some demo_pool
   \<and> virtual_ips (remote (initial_state deployed_store)) ''v1'' = Some demo_vip
   \<and> fst (calculate_instance_properties demo_pool demo_vip (initial_state deployed_store))
       = Inr (Some demo_props)
   \<and> instance_resolvable (remote (initial_state deployed_store)) (instance_fq_name demo_pool ''p1'')
   \<and> instance_identified (remote (initial_state deployed_store)) (instance_fq_name demo_pool ''p1'')
   \<and> in_sync (remote (initial_state deployed_store)) (instance_fq_name demo_pool ''p1'') demo_props
   \<and> filter is_si_update
        (calls_since (initial_state deployed_store)
          (snd (update_loadbalancer_instance ''p1'' ''v1'' (initial_state deployed_store)))) = []
   \<and> filter is_write
        (calls_since (initial_state deployed_store)
          (snd (update_loadbalancer_instance ''p1'' ''v1'' (initial_state deployed_store))))
       = [LoadbalancerPoolUpdate associated_pool]
   \<and> filter is_write
        (calls_since (snd (update_loadbalancer_instance ''p1'' ''v1'' (initial_state deployed_store)))
          (snd (update_loadbalancer_instance ''p1'' ''v1''
                 (snd (update_loadbalancer_instance ''p1'' ''v1'' (initial_state deployed_store))))))
       = []"
proof -
  have c1: "loadbalancer_pools (remote (initial_state demo_store)) ''p1'' = Some demo_pool"
    and c2: "pool_uuid demo_pool = ''p1''"
    and c3: "virtual_ips (remote (initial_state demo_store)) ''v1'' = Some demo_vip"
    and c5: "instance_resolvable (remote (initial_state demo_store)) (instance_fq_name demo_pool ''p1'')"
    and c6: "instance_identified (remote (initial_state demo_store)) (instance_fq_name demo_pool ''p1'')"
    by (simp_all add: demo_defs instance_resolvable_def instance_identified_def instance_fq_name_def)
  have c4: "fst (calculate_instance_properties demo_pool demo_vip (initial_state demo_store))
       = Inr (Some demo_props)"
    by (simp add: demo_defs driver_defs api_defs)
  have d1: "loadbalancer_pools (remote (initial_state deployed_store)) ''p1'' = Some demo_pool"
    and d3: "virtual_ips (remote (initial_state deployed_store)) ''v1'' = Some demo_vip"
    and d5: "instance_resolvable (remote (initial_state deployed_store)) (instance_fq_name demo_pool ''p1'')"
    and d6: "instance_identified (remote (initial_state deployed_store)) (instance_fq_name demo_pool ''p1'')"
    and d7: "in_sync (remote (initial_state deployed_store)) (instance_fq_name demo_pool ''p1'') demo_props"
    by (simp_all add: demo_defs instance_resolvable_def instance_identified_def in_sync_def
        instance_fq_name_def)
  have d4: "fst (calculate_instance_properties demo_pool demo_vip (initial_state deployed_store))
       = Inr (Some demo_props)"
    by (simp add: demo_defs driver_defs api_defs)
  note created = reconcile_idempotent [OF c1 c2 c3 c4 c5 c6]
  note synced = reconcile_idempotent [OF d1 c2 d3 d4 d5 d6]
  have c8: "filter is_write
        (calls_since (snd (update_loadbalancer_instance ''p1'' ''v1'' (initial_state demo_store)))
          (snd (update_loadbalancer_instance ''p1'' ''v1''
                 (snd (update_loadbalancer_instance ''p1'' ''v1'' (initial_state demo_store))))))
       = []"
    using created by blast
  have d8: "filter is_si_update
        (calls_since (initial_state deployed_store)
          (snd (update_loadbalancer_instance ''p1'' ''v1'' (initial_state deployed_store)))) = []"
    using synced d7 by blast
  have d9: "filter is_write
        (calls_since (snd (update_loadbalancer_instance ''p1'' ''v1'' (initial_state deployed_store)))
          (snd (update_loadbalancer_instance ''p1'' ''v1''
                 (snd (update_loadbalancer_instance ''p1'' ''v1'' (initial_state deployed_store))))))
       = []"
    using synced by blast
  have c7: "length (filter is_write
        (calls_since (initial_state demo_store)
          (snd (update_loadbalancer_instance ''p1'' ''v1'' (initial_state demo_store))))) = 2"
    by (simp add: demo_defs driver_defs api_defs)
  have d10: "filter is_write
        (calls_since (initial_state deployed_store)
          (snd (update_loadbalancer_instance ''p1'' ''v1'' (initial_state deployed_store))))
       = [LoadbalancerPoolUpdate associated_pool]"
    by (simp add: demo_defs driver_defs api_defs)
  show ?thesis
    using c1 c2 c3 c4 c5 c6 c7 c8 d1 d3 d4 d5 d6 d7 d8 d9 d10 by (intro conjI) assumption+
qed

text \<open>
  The claim as it is written bounds the writes of the first call by one and promises none
  on the second for every reconcile call. In the first scenario, where the instance does
  not exist yet, the first call makes two writes, the create and the pool update. With
  the VIP without an interface and the instance deployed, the first call deletes the
  instance and the second call issues the delete again.
\<close>

theorem reconcile_idempotent_counterexample:
  "service_instances demo_store (instance_fq_name demo_pool ''p1'') = None
   \<and> map is_pool_update
        (filter is_write
          (calls_since (initial_state demo_store)
            (snd (update_loadbalancer_instance ''p1'' ''v1'' (initial_state demo_store)))))
       = [False, True]
   \<and> \<not> length (filter is_write
          (calls_since (initial_state demo_store)
            (snd (update_loadbalancer_instance ''p1'' ''v1'' (initial_state demo_store))))) \<le> 1
   \<and> fst (calculate_instance_properties demo_pool unbound_vip (initial_state unbound_deployed_store))
       = Inr None
   \<and> filter is_write
        (calls_since (snd (update_loadbalancer_instance ''p1'' ''v1'' (initial_state unbound_deployed_store)))
          (snd (update_loadbalancer_instance ''p1'' ''v1''
                 (snd (update_loadbalancer_instance ''p1'' ''v1''
                        (initial_state unbound_deployed_store))))))
       = [ServiceInstanceDelete [''default-domain'', ''demo'', ''p1'']]"
  by (simp add: demo_defs driver_defs api_defs)

end
